theory Spec2Isabelle
  imports Main "HOL-Library.Multiset" "HOL-Library.AList"
begin

section \<open>Python values, dictionaries and exceptions\<close>

text \<open>
  The action executor receives an intent string and a payload decoded from JSON: a
  dictionary, a list of dictionaries, or nothing. Values are the Python objects JSON
  decodes to. Floating point numbers are left out: every number is an integer (the
  default reminder lead time \<^verbatim>\<open>1.0\<close> is the integer 1).
\<close>

datatype pyval =
    VNone
  | VBool bool
  | VInt int
  | VStr string
  | VList "pyval list"
  | VDict "(string \<times> pyval) list"

type_synonym dict = "(string \<times> pyval) list"

text \<open>Python truthiness (\<^verbatim>\<open>if x:\<close>, \<^verbatim>\<open>x or y\<close>).\<close>

fun truthy :: "pyval \<Rightarrow> bool" where
  "truthy VNone = False"
| "truthy (VBool b) = b"
| "truthy (VInt n) = (n \<noteq> 0)"
| "truthy (VStr s) = (s \<noteq> [])"
| "truthy (VList xs) = (xs \<noteq> [])"
| "truthy (VDict d) = (d \<noteq> [])"

text \<open>\<^verbatim>\<open>d.get(k)\<close> and \<^verbatim>\<open>d.get(k, default)\<close>.\<close>

definition dict_get :: "dict \<Rightarrow> string \<Rightarrow> pyval" where
  "dict_get d k = (case map_of d k of None \<Rightarrow> VNone | Some v \<Rightarrow> v)"

definition dict_get_or :: "dict \<Rightarrow> string \<Rightarrow> pyval \<Rightarrow> pyval" where
  "dict_get_or d k dflt = (case map_of d k of None \<Rightarrow> dflt | Some v \<Rightarrow> v)"

text \<open>
  Exceptions are values. \<open>exn_text\<close> stands for \<^verbatim>\<open>str(e)\<close>; the wording of a
  library's message is not modelled, only which exception it is.
\<close>

datatype exn =
    AttributeError
  | TypeError
  | ValueError
  | IndexError
  | IntegrityError
  | DriverError
  | JobLookupError

fun exn_text :: "exn \<Rightarrow> string" where
  "exn_text AttributeError = ''AttributeError''"
| "exn_text TypeError = ''TypeError''"
| "exn_text ValueError = ''ValueError''"
| "exn_text IndexError = ''IndexError''"
| "exn_text IntegrityError = ''IntegrityError''"
| "exn_text DriverError = ''DriverError''"
| "exn_text JobLookupError = ''JobLookupError''"

section \<open>Strings\<close>

text \<open>
  A string is a list of characters with code points below U+0100 (Latin-1).
  \<^verbatim>\<open>str.lower()\<close> lowers, on that range, the letters A to Z and the letters
  U+00C0 to U+00DE other than the multiplication sign U+00D7, each to the character 32
  code points above it; \<^verbatim>\<open>str.strip()\<close> removes the white space of
  \<^verbatim>\<open>str.isspace\<close>, which on that range is U+0009 to U+000D, U+001C to U+0020,
  U+0085 and U+00A0.
\<close>

definition py_lower_char :: "char \<Rightarrow> char" where
  "py_lower_char c =
     (if (0x41 \<le> (of_char c :: nat) \<and> (of_char c :: nat) \<le> 0x5A)
         \<or> (0xC0 \<le> (of_char c :: nat) \<and> (of_char c :: nat) \<le> 0xDE
             \<and> (of_char c :: nat) \<noteq> 0xD7)
      then char_of ((of_char c :: nat) + 0x20) else c)"

definition py_lower :: "string \<Rightarrow> string" where
  "py_lower s = map py_lower_char s"

definition is_space :: "char \<Rightarrow> bool" where
  "is_space c =
     (c \<in> set [CHR 0x09, CHR 0x0A, CHR 0x0B, CHR 0x0C, CHR 0x0D,
                CHR 0x1C, CHR 0x1D, CHR 0x1E, CHR 0x1F, CHR 0x20, CHR 0x85, CHR 0xA0])"

definition py_strip :: "string \<Rightarrow> string" where
  "py_strip s = rev (dropWhile is_space (rev (dropWhile is_space s)))"

definition endswith :: "string \<Rightarrow> string \<Rightarrow> bool" where
  "endswith s suf = (length suf \<le> length s \<and> drop (length s - length suf) s = suf)"

text \<open>Decimal digits of an integer, for \<^verbatim>\<open>str(n)\<close> in an f-string.\<close>

fun digits :: "nat \<Rightarrow> string" where
  "digits n =
     (if n < 10 then [''0123456789'' ! n]
      else digits (n div 10) @ [''0123456789'' ! (n mod 10)])"

declare digits.simps [simp del]

definition str_int :: "int \<Rightarrow> string" where
  "str_int i = (if i < 0 then CHR ''-'' # digits (nat (- i)) else digits (nat i))"

text \<open>
  \<^verbatim>\<open>str(v)\<close> as an f-string computes it. The text of a list or a dictionary is
  Python's \<^verbatim>\<open>repr\<close>, taken as a parameter.
\<close>

fun py_str :: "(pyval \<Rightarrow> string) \<Rightarrow> pyval \<Rightarrow> string" where
  "py_str rp VNone = ''None''"
| "py_str rp (VBool b) = (if b then ''True'' else ''False'')"
| "py_str rp (VInt n) = str_int n"
| "py_str rp (VStr s) = s"
| "py_str rp (VList xs) = rp (VList xs)"
| "py_str rp (VDict d) = rp (VDict d)"

text \<open>\<^verbatim>\<open>', '.join(xs)\<close>: a TypeError unless every element is a string.\<close>

fun join_strs :: "pyval list \<Rightarrow> exn + string" where
  "join_strs [] = Inr []"
| "join_strs [VStr s] = Inr s"
| "join_strs (VStr s # x # xs) =
     (case join_strs (x # xs) of Inl e \<Rightarrow> Inl e | Inr r \<Rightarrow> Inr (s @ '', '' @ r))"
| "join_strs (_ # xs) = Inl TypeError"

subsection \<open>The SQL LIKE operator\<close>

text \<open>
  \<^verbatim>\<open>column.ilike(pattern)\<close> on SQLite, the database of \<^verbatim>\<open>config.py\<close>:
  \<^verbatim>\<open>%\<close> matches any run of characters, \<^verbatim>\<open>_\<close> one character, every other
  character itself, where SQLite's \<^verbatim>\<open>lower\<close> and \<^verbatim>\<open>LIKE\<close> fold the case of the
  letters A to Z only. The handlers build the pattern as \<^verbatim>\<open>f"%{term}%"\<close>;
  wildcards inside the term stay wildcards.
\<close>

definition lower_char :: "char \<Rightarrow> char" where
  "lower_char c =
     (case map_of (zip ''ABCDEFGHIJKLMNOPQRSTUVWXYZ'' ''abcdefghijklmnopqrstuvwxyz'') c of
        None \<Rightarrow> c
      | Some l \<Rightarrow> l)"

fun like :: "string \<Rightarrow> string \<Rightarrow> bool" where
  "like [] [] = True"
| "like [] (c # cs) = False"
| "like (p # ps) [] = (p = CHR ''%'' \<and> like ps [])"
| "like (p # ps) (c # cs) =
     (if p = CHR ''%'' then like ps (c # cs) \<or> like (p # ps) cs
      else (p = CHR ''_'' \<or> lower_char p = lower_char c) \<and> like ps cs)"

definition ilike_contains :: "string \<Rightarrow> string \<Rightarrow> bool" where
  "ilike_contains term s = like (''%'' @ term @ ''%'') s"

subsection \<open>Suffix stripping of a shopping item's name\<close>

text \<open>
  \<^verbatim>\<open>
  search_term = data['item_name'].lower().strip()
  for suffix in ['urile', 'ele', 'ule', 'ul', 'le', 'ii', 'a']:
      if search_term.endswith(suffix) and len(search_term) > len(suffix) + 2:
          search_term = search_term[:-len(suffix)]
          break
  \<close>
\<close>

definition suffixes :: "string list" where
  "suffixes = [''urile'', ''ele'', ''ule'', ''ul'', ''le'', ''ii'', ''a'']"

fun strip_suffix :: "string \<Rightarrow> string list \<Rightarrow> string" where
  "strip_suffix s [] = s"
| "strip_suffix s (suf # rest) =
     (if endswith s suf \<and> length s > length suf + 2
      then take (length s - length suf) s
      else strip_suffix s rest)"

definition normalize_term :: "string \<Rightarrow> string" where
  "normalize_term name = strip_suffix (py_strip (py_lower name)) suffixes"



section \<open>Time\<close>

text \<open>
  A naive \<^verbatim>\<open>datetime\<close> is a number of microseconds on the local time line, counted
  from a midnight; a \<^verbatim>\<open>timedelta\<close> is a number of microseconds. The calendar range
  of \<^verbatim>\<open>datetime\<close> (years 1 to 9999) is not modelled.
\<close>

type_synonym time = int

definition one_minute :: int where
  "one_minute = 60000000"

definition one_hour :: int where
  "one_hour = 3600000000"

definition one_day :: int where
  "one_day = 86400000000"

text \<open>
  \<^verbatim>\<open>timedelta(minutes=v)\<close> and \<^verbatim>\<open>timedelta(hours=v)\<close>: a number (a bool
  counts as 0 or 1), else a TypeError.
\<close>

fun as_number :: "pyval \<Rightarrow> exn + int" where
  "as_number (VInt n) = Inr n"
| "as_number (VBool b) = Inr (if b then 1 else 0)"
| "as_number _ = Inl TypeError"

definition timedelta_minutes :: "pyval \<Rightarrow> exn + int" where
  "timedelta_minutes v = (case as_number v of Inl e \<Rightarrow> Inl e | Inr n \<Rightarrow> Inr (n * one_minute))"

definition timedelta_hours :: "pyval \<Rightarrow> exn + int" where
  "timedelta_hours v = (case as_number v of Inl e \<Rightarrow> Inl e | Inr n \<Rightarrow> Inr (n * one_hour))"

text \<open>\<^verbatim>\<open>datetime.now().date()\<close> as the midnight that starts the local day.\<close>

definition day_start :: "time \<Rightarrow> time" where
  "day_start t = (t div one_day) * one_day"

section \<open>The entity store\<close>

text \<open>
  The rows of \<^verbatim>\<open>app/db/models.py\<close>. A table is the list of its rows in the order
  a query without \<^verbatim>\<open>ORDER BY\<close> returns them (insertion order), so \<^verbatim>\<open>.first()\<close>
  is the first row of the list that passes the filters.
\<close>

record task =
  t_id :: nat
  t_title :: string
  t_description :: "string option"
  t_due_date :: "time option"
  t_reminder_date :: "time option"
  t_is_completed :: bool
  t_priority :: pyval
  t_category :: "string option"
  t_created_at :: time
  t_updated_at :: time

record shopping_item =
  s_id :: nat
  s_name :: string
  s_quantity :: string
  s_category :: "string option"
  s_is_purchased :: bool
  s_notes :: "string option"
  s_price_estimate :: pyval
  s_created_at :: time

record agent_action =
  a_id :: nat
  a_action_type :: string
  a_target :: "string option"
  a_content :: "string option"
  a_status :: string
  a_created_at :: time
  a_executed_at :: "time option"

record calendar_event =
  e_id :: nat
  e_google_event_id :: "string option"
  e_title :: string
  e_description :: "string option"
  e_start_time :: time
  e_end_time :: time
  e_meet_link :: "string option"
  e_attendee_email :: "string option"
  e_attendee_name :: "string option"
  e_reminder_sent :: bool
  e_reminder_time :: "time option"
  e_status :: string
  e_created_at :: time
  e_updated_at :: time

text \<open>An autoincremented primary key: one more than the largest id of the table.\<close>

definition next_id :: "nat list \<Rightarrow> nat" where
  "next_id ids = Suc (fold max ids 0)"

section \<open>Collaborators, effects and the world\<close>

text \<open>
  A reminder job of the scheduler: the arguments \<^verbatim>\<open>add_job\<close> keeps for
  \<^verbatim>\<open>_send_reminder_email\<close> and the instant of its date trigger.
\<close>

record job =
  j_run_date :: time
  j_to :: pyval
  j_name :: pyval
  j_title :: pyval
  j_start_time :: time
  j_meet_link :: pyval
  j_is_owner :: bool

text \<open>The request \<^verbatim>\<open>create_event_with_meet\<close> sends to the remote calendar.\<close>

record cal_request =
  rq_title :: pyval
  rq_start :: time
  rq_end :: time
  rq_description :: pyval
  rq_attendees :: "pyval list"
  rq_send_notifications :: bool
  rq_reminder_minutes :: int

text \<open>
  The body of a mail: the text the payload gave, or one of the three HTML templates of
  the meeting scheduler with the values it is filled with.
\<close>

datatype mail_body =
    Plain pyval
  | InvitationHtml pyval pyval time time pyval pyval
  | ConfirmationHtml pyval time time pyval pyval pyval pyval
  | ReminderHtml pyval pyval time pyval bool

text \<open>
  Everything a handler does outside its own variables, in program order: a commit of
  the session, a call of the remote calendar, a mail handed to the SMTP server, a
  fetch from the IMAP server, a web search, a call of the job scheduler.
\<close>

datatype effect =
    DbCommit
  | CalInsert cal_request
  | CalDelete string
  | CalList
  | SmtpSend string string mail_body
  | ImapFetch pyval
  | WebSearch pyval
  | SchedStart
  | SchedAddJob string
  | SchedRemoveJob string

datatype insert_outcome =
    Inserted pyval pyval pyval
  | InsertHttpError string
  | InsertRaised string

datatype smtp_outcome =
    SmtpSent
  | SmtpAuthenticationError
  | SmtpException string
  | SmtpRaised string

record email_msg =
  m_id :: string
  m_subject :: string
  m_from :: string
  m_date :: pyval
  m_body :: string

record search_hit =
  h_title :: string
  h_snippet :: string
  h_link :: string

text \<open>
  The environment of a call: configuration constants, the two clocks, the library
  functions the code calls (date parser, regular expression, \<^verbatim>\<open>repr\<close>,
  \<^verbatim>\<open>int\<close>, \<^verbatim>\<open>isoformat\<close>), what the database driver does with a value of
  another type than the column's, and the answers of the remote services. An answer
  may depend on everything done so far. A handler reads each clock once.
\<close>

record env =
  smtp_user :: string
  smtp_password :: string
  calendar_configured :: bool
  now :: time
  utcnow :: time
  parse :: "string \<Rightarrow> time option"
  re_match_email :: "string \<Rightarrow> bool"
  py_repr :: "pyval \<Rightarrow> string"
  py_int :: "string \<Rightarrow> int option"
  isoformat :: "time \<Rightarrow> string"
  db_text :: "pyval \<Rightarrow> string option"
  db_num :: "pyval \<Rightarrow> pyval option"
  db_id_eq :: "pyval \<Rightarrow> (nat \<Rightarrow> bool) option"
  db_text_eq :: "pyval \<Rightarrow> (string option \<Rightarrow> bool) option"
  cal_insert :: "effect list \<Rightarrow> cal_request \<Rightarrow> insert_outcome"
  cal_delete :: "effect list \<Rightarrow> string \<Rightarrow> string option"
  cal_list :: "effect list \<Rightarrow> string + dict list"
  smtp_send :: "effect list \<Rightarrow> string \<Rightarrow> string \<Rightarrow> mail_body \<Rightarrow> smtp_outcome"
  imap_recent :: "effect list \<Rightarrow> pyval \<Rightarrow> string + email_msg list"
  ddg_search :: "effect list \<Rightarrow> pyval \<Rightarrow> string + (pyval \<times> search_hit list)"

record world =
  tasks :: "task list"
  shopping_items :: "shopping_item list"
  calendar_events :: "calendar_event list"
  agent_actions :: "agent_action list"
  jobs :: "(string \<times> job) list"
  scheduled_reminders :: "(pyval \<times> string) list"
  started :: bool
  trace :: "effect list"

definition emit :: "effect \<Rightarrow> world \<Rightarrow> world" where
  "emit ev w = w\<lparr>trace := trace w @ [ev]\<rparr>"

text \<open>\<^verbatim>\<open>db.commit()\<close> of a session whose pending changes the caller has applied.\<close>

definition commit :: "world \<Rightarrow> world" where
  "commit w = emit DbCommit w"

subsection \<open>The database driver\<close>

text \<open>
  A value bound to a text column: a string is stored as it is, \<^verbatim>\<open>None\<close> as NULL
  (an IntegrityError where the column is \<^verbatim>\<open>nullable=False\<close>); what happens to a
  value of another type is the driver's business (\<open>db_text\<close>; it may refuse).
\<close>

definition store_text_null :: "env \<Rightarrow> pyval \<Rightarrow> exn + string option" where
  "store_text_null env v =
     (case v of
        VNone \<Rightarrow> Inr None
      | VStr s \<Rightarrow> Inr (Some s)
      | _ \<Rightarrow> (case db_text env v of None \<Rightarrow> Inl DriverError | Some s \<Rightarrow> Inr (Some s)))"

definition store_text :: "env \<Rightarrow> pyval \<Rightarrow> exn + string" where
  "store_text env v =
     (case store_text_null env v of
        Inl e \<Rightarrow> Inl e
      | Inr None \<Rightarrow> Inl IntegrityError
      | Inr (Some s) \<Rightarrow> Inr s)"

definition store_num :: "env \<Rightarrow> pyval \<Rightarrow> exn + pyval" where
  "store_num env v =
     (case v of
        VNone \<Rightarrow> Inr VNone
      | VInt n \<Rightarrow> Inr (VInt n)
      | _ \<Rightarrow> (case db_num env v of None \<Rightarrow> Inl DriverError | Some x \<Rightarrow> Inr x))"

text \<open>
  \<^verbatim>\<open>Model.id == v\<close> and \<^verbatim>\<open>Model.text_column == v\<close> as filters: decided here
  when the value has the column's type, by the driver otherwise.
\<close>

definition id_filter :: "env \<Rightarrow> pyval \<Rightarrow> exn + (nat \<Rightarrow> bool)" where
  "id_filter env v =
     (case v of
        VInt n \<Rightarrow> Inr (\<lambda>i. int i = n)
      | _ \<Rightarrow> (case db_id_eq env v of None \<Rightarrow> Inl DriverError | Some p \<Rightarrow> Inr p))"

definition text_filter :: "env \<Rightarrow> pyval \<Rightarrow> exn + (string option \<Rightarrow> bool)" where
  "text_filter env v =
     (case v of
        VStr s \<Rightarrow> Inr (\<lambda>c. c = Some s)
      | _ \<Rightarrow> (case db_text_eq env v of None \<Rightarrow> Inl DriverError | Some p \<Rightarrow> Inr p))"

text \<open>
  \<^verbatim>\<open>_parse_date\<close>: the parser's result, or \<^verbatim>\<open>None\<close> when it raises (as it does
  for anything that is not a string).
\<close>

definition parse_date :: "env \<Rightarrow> pyval \<Rightarrow> time option" where
  "parse_date env v = (case v of VStr s \<Rightarrow> parse env s | _ \<Rightarrow> None)"

subsection \<open>Results\<close>

definition failure :: "string \<Rightarrow> pyval" where
  "failure msg = VDict [(''success'', VBool False), (''error'', VStr msg)]"

definition opt_str :: "string option \<Rightarrow> pyval" where
  "opt_str x = (case x of None \<Rightarrow> VNone | Some s \<Rightarrow> VStr s)"

definition as_opt_str :: "pyval \<Rightarrow> string option" where
  "as_opt_str v = (case v of VStr s \<Rightarrow> Some s | _ \<Rightarrow> None)"

text \<open>\<^verbatim>\<open>r.get(k)\<close> on a result.\<close>

definition field_of :: "pyval \<Rightarrow> string \<Rightarrow> pyval" where
  "field_of r k = (case r of VDict d \<Rightarrow> dict_get d k | _ \<Rightarrow> VNone)"

text \<open>The \<^verbatim>\<open>success\<close> entry of a result, when it is there and a bool.\<close>

definition success_of :: "pyval \<Rightarrow> bool option" where
  "success_of r =
     (case r of
        VDict d \<Rightarrow> (case map_of d ''success'' of Some (VBool b) \<Rightarrow> Some b | _ \<Rightarrow> None)
      | _ \<Rightarrow> None)"

section \<open>Task handlers\<close>

text \<open>
  Each handler is \<^verbatim>\<open>try: ... except Exception as e: db.rollback(); return
  {"success": False, "error": str(e)}\<close>. Changes reach a table only at a commit, so
  the world a failing branch returns is the world of the last commit, which is what
  the rollback leaves. The Romanian messages are written without diacritics.
\<close>

text \<open>The items of a batch: \<^verbatim>\<open>item.get\<close> raises on anything but a dictionary.\<close>

fun collect_dicts :: "pyval list \<Rightarrow> exn + dict list" where
  "collect_dicts [] = Inr []"
| "collect_dicts (VDict d # xs) =
     (case collect_dicts xs of Inl e \<Rightarrow> Inl e | Inr ds \<Rightarrow> Inr (d # ds))"
| "collect_dicts (_ # xs) = Inl AttributeError"

text \<open>
  \<^verbatim>\<open>Task(title=..., description=..., due_date=..., priority=..., category=...)\<close>
  as the flush of the commit inserts it under the id \<open>i\<close>.
\<close>

definition new_task :: "env \<Rightarrow> nat \<Rightarrow> dict \<Rightarrow> exn + task" where
  "new_task env i d =
     (let due_date = (if truthy (dict_get d ''due_date'')
                      then parse_date env (dict_get d ''due_date'') else None)
      in case store_text env (dict_get_or d ''title'' (VStr ''Task fara titlu'')) of
           Inl e \<Rightarrow> Inl e
         | Inr title \<Rightarrow>
       (case store_text_null env (dict_get d ''description'') of
           Inl e \<Rightarrow> Inl e
         | Inr description \<Rightarrow>
       (case store_num env (dict_get_or d ''priority'' (VInt 1)) of
           Inl e \<Rightarrow> Inl e
         | Inr priority \<Rightarrow>
       (case store_text_null env (dict_get d ''category'') of
           Inl e \<Rightarrow> Inl e
         | Inr category \<Rightarrow>
           Inr \<lparr> t_id = i, t_title = title, t_description = description,
                 t_due_date = due_date, t_reminder_date = None, t_is_completed = False,
                 t_priority = priority, t_category = category,
                 t_created_at = utcnow env, t_updated_at = utcnow env \<rparr>))))"

fun flush_tasks :: "env \<Rightarrow> nat \<Rightarrow> dict list \<Rightarrow> exn + task list" where
  "flush_tasks env i [] = Inr []"
| "flush_tasks env i (d # ds) =
     (case new_task env i d of
        Inl e \<Rightarrow> Inl e
      | Inr t \<Rightarrow>
          (case flush_tasks env (Suc i) ds of Inl e \<Rightarrow> Inl e | Inr ts \<Rightarrow> Inr (t # ts)))"

text \<open>\<^verbatim>\<open>db.query(Task).filter(Task.is_completed == False).all()\<close>\<close>

definition active_tasks :: "task list \<Rightarrow> task list" where
  "active_tasks ts = filter (\<lambda>t. \<not> t_is_completed t) ts"

definition add_task :: "env \<Rightarrow> pyval \<Rightarrow> world \<Rightarrow> pyval \<times> world" where
  "add_task env data w =
     (case data of
        VList items \<Rightarrow>
          (case collect_dicts items of
             Inl e \<Rightarrow> (failure (exn_text e), w)
           | Inr ds \<Rightarrow>
          (case flush_tasks env (next_id (map t_id (tasks w))) ds of
             Inl e \<Rightarrow> (failure (exn_text e), w)
           | Inr ts \<Rightarrow>
             (let w' = commit (w\<lparr>tasks := tasks w @ ts\<rparr>);
                  added_tasks = map (\<lambda>d. dict_get_or d ''title'' (VStr ''Task'')) ds;
                  all_task_titles = map t_title (active_tasks (tasks w'))
              in case join_strs added_tasks of
                   Inl e \<Rightarrow> (failure (exn_text e), w')
                 | Inr joined \<Rightarrow>
                     (VDict [(''success'', VBool True),
                             (''action'', VStr ''add_task''),
                             (''count'', VInt (int (length added_tasks))),
                             (''message'', VStr (''Am adaugat '' @ str_int (int (length added_tasks))
                                 @ '' task-uri: '' @ joined @ ''.'')),
                             (''full_list'', VList (map VStr all_task_titles)),
                             (''total_tasks'', VInt (int (length all_task_titles)))], w'))))
      | VDict d \<Rightarrow>
          (case new_task env (next_id (map t_id (tasks w))) d of
             Inl e \<Rightarrow> (failure (exn_text e), w)
           | Inr t \<Rightarrow>
             (let w' = commit (w\<lparr>tasks := tasks w @ [t]\<rparr>);
                  all_task_titles = map t_title (active_tasks (tasks w'))
              in (VDict [(''success'', VBool True),
                         (''action'', VStr ''add_task''),
                         (''task_id'', VInt (int (t_id t))),
                         (''message'', VStr (''Task-ul '' @ [CHR 0x27] @ t_title t @ [CHR 0x27]
                             @ '' a fost adaugat.'')),
                         (''full_list'', VList (map VStr all_task_titles)),
                         (''total_tasks'', VInt (int (length all_task_titles)))], w')))
      | _ \<Rightarrow> (failure (exn_text AttributeError), w))"

subsection \<open>Listing\<close>

text \<open>
  \<^verbatim>\<open>Task.due_date.asc().nullsfirst()\<close>: ascending, rows without a due date first.
  The sort is an insertion sort that keeps rows with equal keys in table order; the
  database promises no order among them.
\<close>

fun nulls_first_le :: "time option \<Rightarrow> time option \<Rightarrow> bool" where
  "nulls_first_le None y = True"
| "nulls_first_le (Some a) None = False"
| "nulls_first_le (Some a) (Some b) = (a \<le> b)"

fun insert_by_due :: "task \<Rightarrow> task list \<Rightarrow> task list" where
  "insert_by_due t [] = [t]"
| "insert_by_due t (u # us) =
     (if nulls_first_le (t_due_date t) (t_due_date u) then t # u # us
      else u # insert_by_due t us)"

definition order_by_due_nullsfirst :: "task list \<Rightarrow> task list" where
  "order_by_due_nullsfirst ts = foldr insert_by_due ts []"

text \<open>
  \<^verbatim>\<open>Task.due_date >= today, Task.due_date < tomorrow\<close>, where \<^verbatim>\<open>today\<close> is the
  date of the local clock and a NULL due date satisfies no comparison.
\<close>

definition due_today :: "env \<Rightarrow> task \<Rightarrow> bool" where
  "due_today env t =
     (case t_due_date t of
        None \<Rightarrow> False
      | Some due \<Rightarrow> day_start (now env) \<le> due \<and> due < day_start (now env) + one_day)"

definition list_tasks_query :: "env \<Rightarrow> dict \<Rightarrow> task list \<Rightarrow> exn + task list" where
  "list_tasks_query env d ts =
     (case (if truthy (dict_get d ''category'')
            then (case text_filter env (dict_get d ''category'') of
                    Inl e \<Rightarrow> Inl e
                  | Inr p \<Rightarrow> Inr (filter (\<lambda>t. p (t_category t)) (active_tasks ts)))
            else Inr (active_tasks ts)) of
        Inl e \<Rightarrow> Inl e
      | Inr q \<Rightarrow>
          Inr (order_by_due_nullsfirst
                 (if truthy (dict_get d ''today'') then filter (due_today env) q else q)))"

definition task_entry :: "env \<Rightarrow> task \<Rightarrow> pyval" where
  "task_entry env t =
     VDict [(''id'', VInt (int (t_id t))),
            (''title'', VStr (t_title t)),
            (''description'', opt_str (t_description t)),
            (''due_date'', (case t_due_date t of None \<Rightarrow> VNone
                                               | Some due \<Rightarrow> VStr (isoformat env due))),
            (''priority'', t_priority t),
            (''category'', opt_str (t_category t))]"

definition list_tasks :: "env \<Rightarrow> pyval \<Rightarrow> world \<Rightarrow> pyval \<times> world" where
  "list_tasks env data w =
     (case data of
        VDict d \<Rightarrow>
          (case list_tasks_query env d (tasks w) of
             Inl e \<Rightarrow> (failure (exn_text e), w)
           | Inr rows \<Rightarrow>
               (VDict [(''success'', VBool True),
                       (''action'', VStr ''list_tasks''),
                       (''count'', VInt (int (length rows))),
                       (''tasks'', VList (map (task_entry env) rows))], w))
      | _ \<Rightarrow> (failure (exn_text AttributeError), w))"

subsection \<open>Completing and deleting\<close>

text \<open>
  \<^verbatim>\<open>
  if data.get("task_id"):
      task = db.query(Task).filter(Task.id == data["task_id"]).first()
  elif data.get("task_title"):
      task = db.query(Task).filter(Task.title.ilike(f"%{data['task_title']}%")).first()
  \<close>
\<close>

definition find_task :: "env \<Rightarrow> dict \<Rightarrow> task list \<Rightarrow> exn + task option" where
  "find_task env d ts =
     (if truthy (dict_get d ''task_id'') then
        (case id_filter env (dict_get d ''task_id'') of
           Inl e \<Rightarrow> Inl e
         | Inr p \<Rightarrow> Inr (find (\<lambda>t. p (t_id t)) ts))
      else if truthy (dict_get d ''task_title'') then
        Inr (find (\<lambda>t. ilike_contains (py_str (py_repr env) (dict_get d ''task_title''))
                          (t_title t)) ts)
      else Inr None)"

definition complete_task :: "env \<Rightarrow> pyval \<Rightarrow> world \<Rightarrow> pyval \<times> world" where
  "complete_task env data w =
     (case data of
        VDict d \<Rightarrow>
          (case find_task env d (tasks w) of
             Inl e \<Rightarrow> (failure (exn_text e), w)
           | Inr None \<Rightarrow> (failure ''Task-ul nu a fost gasit.'', w)
           | Inr (Some task) \<Rightarrow>
               (VDict [(''success'', VBool True),
                       (''action'', VStr ''complete_task''),
                       (''message'', VStr (''Task-ul '' @ [CHR 0x27] @ t_title task @ [CHR 0x27]
                           @ '' a fost marcat ca finalizat.''))],
                commit (w\<lparr>tasks :=
                  map (\<lambda>t. if t_id t = t_id task
                           then t\<lparr>t_is_completed := True, t_updated_at := utcnow env\<rparr>
                           else t) (tasks w)\<rparr>)))
      | _ \<Rightarrow> (failure (exn_text AttributeError), w))"

definition delete_task :: "env \<Rightarrow> pyval \<Rightarrow> world \<Rightarrow> pyval \<times> world" where
  "delete_task env data w =
     (case data of
        VDict d \<Rightarrow>
          (case find_task env d (tasks w) of
             Inl e \<Rightarrow> (failure (exn_text e), w)
           | Inr None \<Rightarrow> (failure ''Task-ul nu a fost gasit.'', w)
           | Inr (Some task) \<Rightarrow>
               (VDict [(''success'', VBool True),
                       (''action'', VStr ''delete_task''),
                       (''message'', VStr (''Task-ul '' @ [CHR 0x27] @ t_title task @ [CHR 0x27]
                           @ '' a fost sters.''))],
                commit (w\<lparr>tasks := filter (\<lambda>t. t_id t \<noteq> t_id task) (tasks w)\<rparr>)))
      | _ \<Rightarrow> (failure (exn_text AttributeError), w))"

section \<open>Shopping handlers\<close>

definition new_item :: "env \<Rightarrow> nat \<Rightarrow> dict \<Rightarrow> exn + shopping_item" where
  "new_item env i d =
     (case store_text env (dict_get_or d ''name'' (VStr ''Item'')) of
        Inl e \<Rightarrow> Inl e
      | Inr name \<Rightarrow>
     (case store_text_null env (dict_get d ''category'') of
        Inl e \<Rightarrow> Inl e
      | Inr category \<Rightarrow>
     (case store_text_null env (dict_get d ''notes'') of
        Inl e \<Rightarrow> Inl e
      | Inr notes \<Rightarrow>
     (case store_num env (dict_get d ''price'') of
        Inl e \<Rightarrow> Inl e
      | Inr price \<Rightarrow>
          Inr \<lparr> s_id = i, s_name = name,
                s_quantity = (if truthy (dict_get d ''quantity'')
                              then py_str (py_repr env) (dict_get_or d ''quantity'' (VStr ''1''))
                              else ''1''),
                s_category = category, s_is_purchased = False, s_notes = notes,
                s_price_estimate = price, s_created_at = utcnow env \<rparr>))))"

fun flush_items :: "env \<Rightarrow> nat \<Rightarrow> dict list \<Rightarrow> exn + shopping_item list" where
  "flush_items env i [] = Inr []"
| "flush_items env i (d # ds) =
     (case new_item env i d of
        Inl e \<Rightarrow> Inl e
      | Inr t \<Rightarrow>
          (case flush_items env (Suc i) ds of Inl e \<Rightarrow> Inl e | Inr ts \<Rightarrow> Inr (t # ts)))"

definition active_items :: "shopping_item list \<Rightarrow> shopping_item list" where
  "active_items xs = filter (\<lambda>i. \<not> s_is_purchased i) xs"

definition add_shopping_item :: "env \<Rightarrow> pyval \<Rightarrow> world \<Rightarrow> pyval \<times> world" where
  "add_shopping_item env data w =
     (case data of
        VList items \<Rightarrow>
          (case collect_dicts items of
             Inl e \<Rightarrow> (failure (exn_text e), w)
           | Inr ds \<Rightarrow>
          (case flush_items env (next_id (map s_id (shopping_items w))) ds of
             Inl e \<Rightarrow> (failure (exn_text e), w)
           | Inr xs \<Rightarrow>
             (let w' = commit (w\<lparr>shopping_items := shopping_items w @ xs\<rparr>);
                  added_items = map (\<lambda>d. dict_get_or d ''name'' (VStr ''Item'')) ds;
                  all_item_names = map s_name (active_items (shopping_items w'))
              in case join_strs added_items of
                   Inl e \<Rightarrow> (failure (exn_text e), w')
                 | Inr joined \<Rightarrow>
                     (VDict [(''success'', VBool True),
                             (''action'', VStr ''add_shopping_item''),
                             (''count'', VInt (int (length added_items))),
                             (''message'', VStr (''Am adaugat '' @ str_int (int (length added_items))
                                 @ '' produse pe lista: '' @ joined @ ''.'')),
                             (''full_list'', VList (map VStr all_item_names)),
                             (''total_items'', VInt (int (length all_item_names)))], w'))))
      | VDict d \<Rightarrow>
          (case new_item env (next_id (map s_id (shopping_items w))) d of
             Inl e \<Rightarrow> (failure (exn_text e), w)
           | Inr x \<Rightarrow>
             (let w' = commit (w\<lparr>shopping_items := shopping_items w @ [x]\<rparr>);
                  all_item_names = map s_name (active_items (shopping_items w'))
              in (VDict [(''success'', VBool True),
                         (''action'', VStr ''add_shopping_item''),
                         (''item_id'', VInt (int (s_id x))),
                         (''message'', VStr ([CHR 0x27] @ s_name x @ [CHR 0x27]
                             @ '' a fost adaugat la lista de cumparaturi.'')),
                         (''full_list'', VList (map VStr all_item_names)),
                         (''total_items'', VInt (int (length all_item_names)))], w')))
      | _ \<Rightarrow> (failure (exn_text AttributeError), w))"

definition item_entry :: "shopping_item \<Rightarrow> pyval" where
  "item_entry x =
     VDict [(''id'', VInt (int (s_id x))),
            (''name'', VStr (s_name x)),
            (''quantity'', VStr (s_quantity x)),
            (''category'', opt_str (s_category x)),
            (''notes'', opt_str (s_notes x)),
            (''price_estimate'', s_price_estimate x)]"

definition list_shopping :: "env \<Rightarrow> pyval \<Rightarrow> world \<Rightarrow> pyval \<times> world" where
  "list_shopping env data w =
     (case data of
        VDict d \<Rightarrow>
          (case (if truthy (dict_get d ''category'')
                 then (case text_filter env (dict_get d ''category'') of
                         Inl e \<Rightarrow> Inl e
                       | Inr p \<Rightarrow> Inr (filter (\<lambda>x. p (s_category x))
                                          (active_items (shopping_items w))))
                 else Inr (active_items (shopping_items w))) of
             Inl e \<Rightarrow> (failure (exn_text e), w)
           | Inr rows \<Rightarrow>
               (VDict [(''success'', VBool True),
                       (''action'', VStr ''list_shopping''),
                       (''count'', VInt (int (length rows))),
                       (''items'', VList (map item_entry rows))], w))
      | _ \<Rightarrow> (failure (exn_text AttributeError), w))"

text \<open>
  The lookup of \<^verbatim>\<open>_remove_shopping_item\<close>: by id, else by the normalized name
  among the items not purchased, else by the name as given. \<^verbatim>\<open>.lower()\<close> raises on
  a name that is not a string.
\<close>

definition find_item :: "env \<Rightarrow> dict \<Rightarrow> shopping_item list \<Rightarrow> exn + shopping_item option" where
  "find_item env d xs =
     (if truthy (dict_get d ''item_id'') then
        (case id_filter env (dict_get d ''item_id'') of
           Inl e \<Rightarrow> Inl e
         | Inr p \<Rightarrow> Inr (find (\<lambda>x. p (s_id x)) xs))
      else if truthy (dict_get d ''item_name'') then
        (case dict_get d ''item_name'' of
           VStr item_name \<Rightarrow>
             (case find (\<lambda>x. ilike_contains (normalize_term item_name) (s_name x)
                              \<and> \<not> s_is_purchased x) xs of
                Some x \<Rightarrow> Inr (Some x)
              | None \<Rightarrow> Inr (find (\<lambda>x. ilike_contains item_name (s_name x)
                                        \<and> \<not> s_is_purchased x) xs))
         | _ \<Rightarrow> Inl AttributeError)
      else Inr None)"

definition remove_shopping_item :: "env \<Rightarrow> pyval \<Rightarrow> world \<Rightarrow> pyval \<times> world" where
  "remove_shopping_item env data w =
     (case data of
        VDict d \<Rightarrow>
          (case find_item env d (shopping_items w) of
             Inl e \<Rightarrow> (failure (exn_text e), w)
           | Inr None \<Rightarrow> (failure ''Produsul nu a fost gasit pe lista.'', w)
           | Inr (Some item) \<Rightarrow>
               (if truthy (dict_get_or d ''purchased'' (VBool False)) then
                  (VDict [(''success'', VBool True),
                          (''action'', VStr ''mark_purchased''),
                          (''message'', VStr ([CHR 0x27] @ s_name item @ [CHR 0x27]
                              @ '' a fost marcat ca cumparat.''))],
                   commit (w\<lparr>shopping_items :=
                     map (\<lambda>x. if s_id x = s_id item then x\<lparr>s_is_purchased := True\<rparr> else x)
                       (shopping_items w)\<rparr>))
                else
                  (VDict [(''success'', VBool True),
                          (''action'', VStr ''remove_shopping_item''),
                          (''message'', VStr ([CHR 0x27] @ s_name item @ [CHR 0x27]
                              @ '' a fost sters de pe lista.''))],
                   commit (w\<lparr>shopping_items :=
                     filter (\<lambda>x. s_id x \<noteq> s_id item) (shopping_items w)\<rparr>))))
      | _ \<Rightarrow> (failure (exn_text AttributeError), w))"

section \<open>The email service\<close>

text \<open>
  \<^verbatim>\<open>app/agent/email_service.py\<close>. Each function catches what the transport raises
  and returns a dictionary; the transport's own answer is the environment's. The
  service's own messages are written without diacritics.
\<close>

definition email_configured :: "env \<Rightarrow> bool" where
  "email_configured env = (smtp_user env \<noteq> [] \<and> smtp_password env \<noteq> [])"

text \<open>\<^verbatim>\<open>validate_email\<close>: \<^verbatim>\<open>re.match\<close> raises a TypeError on anything but a string.\<close>

definition validate_email :: "env \<Rightarrow> pyval \<Rightarrow> exn + bool" where
  "validate_email env v = (case v of VStr s \<Rightarrow> Inr (re_match_email env s) | _ \<Rightarrow> Inl TypeError)"

fun body_is_text :: "mail_body \<Rightarrow> bool" where
  "body_is_text (Plain (VStr s)) = True"
| "body_is_text (Plain _) = False"
| "body_is_text _ = True"

text \<open>
  \<^verbatim>\<open>send_email\<close>. Without credentials nothing is attempted. A recipient, subject or
  body that is not a string makes building the message raise inside the
  \<^verbatim>\<open>try\<close> before any mail is handed over (the error text is then the transport's
  or the builder's; only the failure is modelled). Otherwise the mail is handed to
  the SMTP server and the server's answer decides.
\<close>

definition svc_send_email :: "env \<Rightarrow> pyval \<Rightarrow> pyval \<Rightarrow> mail_body \<Rightarrow> world \<Rightarrow> pyval \<times> world" where
  "svc_send_email env to_email subject body w =
     (if \<not> email_configured env then
        (failure ''Email service not configured. Please set SMTP credentials in .env'', w)
      else
        (case (to_email, subject) of
           (VStr rcpt, VStr subj) \<Rightarrow>
             (if body_is_text body then
                (case smtp_send env (trace w) rcpt subj body of
                   SmtpSent \<Rightarrow>
                     (VDict [(''success'', VBool True),
                             (''message'', VStr (''Email sent to '' @ rcpt)),
                             (''sent_at'', VStr (isoformat env (utcnow env)))],
                      emit (SmtpSend rcpt subj body) w)
                 | SmtpAuthenticationError \<Rightarrow>
                     (failure ''Email authentication failed. Check SMTP credentials.'',
                      emit (SmtpSend rcpt subj body) w)
                 | SmtpException m \<Rightarrow>
                     (failure (''SMTP error: '' @ m), emit (SmtpSend rcpt subj body) w)
                 | SmtpRaised m \<Rightarrow>
                     (failure (''Failed to send email: '' @ m), emit (SmtpSend rcpt subj body) w))
              else (failure (''Failed to send email: '' @ exn_text AttributeError), w))
         | _ \<Rightarrow> (failure (''Failed to send email: '' @ exn_text AttributeError), w)))"

text \<open>
  \<^verbatim>\<open>get_recent_emails(count)\<close>: the error text of a failure, or the mails fetched,
  each body cut to 2000 characters.
\<close>

definition truncate_body :: "email_msg \<Rightarrow> email_msg" where
  "truncate_body m =
     (if length (m_body m) > 2000 then m\<lparr>m_body := take 2000 (m_body m) @ ''...''\<rparr> else m)"

definition svc_get_recent_emails :: "env \<Rightarrow> pyval \<Rightarrow> world \<Rightarrow> (string + email_msg list) \<times> world" where
  "svc_get_recent_emails env cnt w =
     (if \<not> email_configured env then
        (Inl ''Email service not configured. Please set SMTP credentials in .env'', w)
      else
        (case imap_recent env (trace w) cnt of
           Inl m \<Rightarrow> (Inl m, emit (ImapFetch cnt) w)
         | Inr ms \<Rightarrow> (Inr (map truncate_body ms), emit (ImapFetch cnt) w)))"

text \<open>
  \<^verbatim>\<open>get_email_by_index(index)\<close>: \<^verbatim>\<open>index + 1\<close> raises on anything but a number;
  a negative index counts from the end and raises an IndexError when out of range.
\<close>

definition svc_get_email_by_index ::
  "env \<Rightarrow> pyval \<Rightarrow> world \<Rightarrow> (exn + (string + email_msg)) \<times> world" where
  "svc_get_email_by_index env index w =
     (case as_number index of
        Inl e \<Rightarrow> (Inl e, w)
      | Inr i \<Rightarrow>
          (case svc_get_recent_emails env (VInt (i + 1)) w of
             (Inl m, w1) \<Rightarrow> (Inr (Inl m), w1)
           | (Inr emails, w1) \<Rightarrow>
               (if i \<ge> int (length emails) then
                  (Inr (Inl (''Email at index '' @ py_str (py_repr env) index @ '' not found'')), w1)
                else if 0 \<le> i then (Inr (Inr (emails ! nat i)), w1)
                else if - int (length emails) \<le> i
                  then (Inr (Inr (emails ! nat (int (length emails) + i))), w1)
                else (Inl IndexError, w1))))"

text \<open>\<^verbatim>\<open>sub in s\<close> on strings.\<close>

fun starts_with :: "string \<Rightarrow> string \<Rightarrow> bool" where
  "starts_with s [] = True"
| "starts_with [] (p # ps) = False"
| "starts_with (c # cs) (p # ps) = (c = p \<and> starts_with cs ps)"

fun py_in :: "string \<Rightarrow> string \<Rightarrow> bool" where
  "py_in sub [] = (sub = [])"
| "py_in sub (c # cs) = (starts_with (c # cs) sub \<or> py_in sub cs)"

text \<open>
  \<^verbatim>\<open>search_emails(query)\<close>: the first five of the last fifty mails whose subject,
  sender or body contains the lowered query.
\<close>

definition svc_search_emails ::
  "env \<Rightarrow> pyval \<Rightarrow> world \<Rightarrow> (exn + (string + email_msg list)) \<times> world" where
  "svc_search_emails env query w =
     (case svc_get_recent_emails env (VInt 50) w of
        (Inl m, w1) \<Rightarrow> (Inr (Inl m), w1)
      | (Inr emails, w1) \<Rightarrow>
          (case query of
             VStr q \<Rightarrow>
               (Inr (Inr (take 5 (filter (\<lambda>m. py_in (py_lower q) (py_lower (m_subject m))
                                              \<or> py_in (py_lower q) (py_lower (m_from m))
                                              \<or> py_in (py_lower q) (py_lower (m_body m)))
                                    emails))), w1)
           | _ \<Rightarrow> (Inl AttributeError, w1)))"

section \<open>The search service\<close>

text \<open>
  \<^verbatim>\<open>search_service.search(query)\<close> returns the error text of a failure, or the
  direct answer and the hits; \<^verbatim>\<open>format_results_for_ai\<close> lays them out as text.
\<close>

definition svc_search ::
  "env \<Rightarrow> pyval \<Rightarrow> world \<Rightarrow> (string + (pyval \<times> search_hit list)) \<times> world" where
  "svc_search env query w = (ddg_search env (trace w) query, emit (WebSearch query) w)"

definition hit_entry :: "search_hit \<Rightarrow> pyval" where
  "hit_entry h =
     VDict [(''title'', VStr (h_title h)), (''snippet'', VStr (h_snippet h)),
            (''link'', VStr (h_link h))]"

fun format_hits :: "nat \<Rightarrow> search_hit list \<Rightarrow> string list" where
  "format_hits i [] = []"
| "format_hits i (h # hs) =
     ([CHR 0x0A] @ str_int (int i) @ ''. '' @ h_title h)
     # (if h_snippet h \<noteq> [] then [''   '' @ take 200 (h_snippet h) @ ''...''] else [])
     @ format_hits (Suc i) hs"

fun join_lines :: "string list \<Rightarrow> string" where
  "join_lines [] = []"
| "join_lines [s] = s"
| "join_lines (s # t # ts) = s @ [CHR 0x0A] @ join_lines (t # ts)"

definition format_results_for_ai ::
  "env \<Rightarrow> pyval \<Rightarrow> (string + (pyval \<times> search_hit list)) \<Rightarrow> string" where
  "format_results_for_ai env query res =
     (case res of
        Inl err \<Rightarrow> ''Nu am putut cauta: '' @ err
      | Inr (direct_answer, hits) \<Rightarrow>
          join_lines
            ((''Rezultate cautare pentru '' @ [CHR 0x27] @ py_str (py_repr env) query
                @ [CHR 0x27] @ '':'')
             # (if truthy direct_answer
                then [[CHR 0x0A] @ ''Raspuns direct: '' @ py_str (py_repr env) direct_answer]
                else [])
             @ format_hits 1 (take 5 hits)))"

section \<open>Email and search handlers\<close>

definition send_email :: "env \<Rightarrow> pyval \<Rightarrow> world \<Rightarrow> pyval \<times> world" where
  "send_email env data w =
     (case data of
        VDict d \<Rightarrow>
          (if \<not> truthy (dict_get d ''to'') then
             (failure ''Adresa de email nu a fost specificata.'', w)
           else
             (case validate_email env (dict_get d ''to'') of
                Inl e \<Rightarrow> (failure (exn_text e), w)
              | Inr False \<Rightarrow> (failure ''Adresa de email nu este valida.'', w)
              | Inr True \<Rightarrow>
                  (let subject = dict_get_or d ''subject'' (VStr ''Mesaj de la Asistentul AI'');
                       body = dict_get_or d ''body'' (VStr []);
                       action = \<lparr> a_id = next_id (map a_id (agent_actions w)),
                                  a_action_type = ''email'',
                                  a_target = as_opt_str (dict_get d ''to''),
                                  a_content = Some (''Subject: '' @ py_str (py_repr env) subject
                                      @ [CHR 0x0A, CHR 0x0A] @ py_str (py_repr env) body),
                                  a_status = ''pending'',
                                  a_created_at = utcnow env,
                                  a_executed_at = None \<rparr>;
                       w1 = commit (w\<lparr>agent_actions := agent_actions w @ [action]\<rparr>)
                   in case svc_send_email env (dict_get d ''to'') subject (Plain body) w1 of
                        (result, w2) \<Rightarrow>
                          (result,
                           commit (w2\<lparr>agent_actions :=
                             map (\<lambda>a. if a_id a = a_id action
                                       then a\<lparr>a_status := (if success_of result = Some True
                                                            then ''completed'' else ''failed''),
                                              a_executed_at := Some (utcnow env)\<rparr>
                                       else a) (agent_actions w2)\<rparr>)))))
      | _ \<Rightarrow> (failure (exn_text AttributeError), w))"

definition preview :: "string \<Rightarrow> string" where
  "preview body = (if length body > 200 then take 200 body @ ''...'' else body)"

fun email_entries :: "nat \<Rightarrow> email_msg list \<Rightarrow> pyval list" where
  "email_entries i [] = []"
| "email_entries i (m # ms) =
     VDict [(''index'', VInt (int i)), (''from'', VStr (m_from m)),
            (''subject'', VStr (m_subject m)), (''date'', m_date m),
            (''preview'', VStr (preview (m_body m)))]
     # email_entries (Suc i) ms"

definition email_full :: "email_msg \<Rightarrow> pyval" where
  "email_full m =
     VDict [(''from'', VStr (m_from m)), (''subject'', VStr (m_subject m)),
            (''date'', m_date m), (''body'', VStr (m_body m))]"

definition read_emails :: "env \<Rightarrow> pyval \<Rightarrow> world \<Rightarrow> pyval \<times> world" where
  "read_emails env data w =
     (case data of
        VDict d \<Rightarrow>
          (case svc_get_recent_emails env (dict_get_or d ''count'' (VInt 5)) w of
             (Inl err, w1) \<Rightarrow> (failure err, w1)
           | (Inr [], w1) \<Rightarrow>
               (VDict [(''success'', VBool True), (''action'', VStr ''read_emails''),
                       (''message'', VStr ''Nu ai emailuri noi in inbox.''),
                       (''emails'', VList [])], w1)
           | (Inr emails, w1) \<Rightarrow>
               (VDict [(''success'', VBool True), (''action'', VStr ''read_emails''),
                       (''message'', VStr (''Ai '' @ str_int (int (length emails))
                           @ '' emailuri recente.'')),
                       (''emails'', VList (email_entries 1 emails))], w1))
      | _ \<Rightarrow> (failure (''Nu am putut citi emailurile: '' @ exn_text AttributeError), w))"

definition read_last_email :: "env \<Rightarrow> pyval \<Rightarrow> world \<Rightarrow> pyval \<times> world" where
  "read_last_email env data w =
     (case svc_get_recent_emails env (VInt 1) w of
        (Inl err, w1) \<Rightarrow> (failure err, w1)
      | (Inr [], w1) \<Rightarrow>
          (VDict [(''success'', VBool True), (''action'', VStr ''read_last_email''),
                  (''message'', VStr ''Nu ai emailuri noi in inbox.''),
                  (''email'', VNone)], w1)
      | (Inr (m # ms), w1) \<Rightarrow>
          (VDict [(''success'', VBool True), (''action'', VStr ''read_last_email''),
                  (''message'', VStr ''Am citit ultimul email.''),
                  (''email'', email_full m)], w1))"

definition search_emails :: "env \<Rightarrow> pyval \<Rightarrow> world \<Rightarrow> pyval \<times> world" where
  "search_emails env data w =
     (case data of
        VDict d \<Rightarrow>
          (if \<not> truthy (dict_get_or d ''query'' (VStr [])) then
             (failure ''Nu ai specificat ce sa caut in emailuri.'', w)
           else
             (case svc_search_emails env (dict_get_or d ''query'' (VStr [])) w of
                (Inl e, w1) \<Rightarrow> (failure (''Nu am putut cauta emailuri: '' @ exn_text e), w1)
              | (Inr (Inl err), w1) \<Rightarrow> (failure err, w1)
              | (Inr (Inr []), w1) \<Rightarrow>
                  (VDict [(''success'', VBool True), (''action'', VStr ''search_emails''),
                          (''message'', VStr (''Nu am gasit emailuri care sa contina ''
                              @ [CHR 0x27]
                              @ py_str (py_repr env) (dict_get_or d ''query'' (VStr []))
                              @ [CHR 0x27] @ ''.'')),
                          (''emails'', VList [])], w1)
              | (Inr (Inr emails), w1) \<Rightarrow>
                  (VDict [(''success'', VBool True), (''action'', VStr ''search_emails''),
                          (''message'', VStr (''Am gasit '' @ str_int (int (length emails))
                              @ '' emailuri pentru '' @ [CHR 0x27]
                              @ py_str (py_repr env) (dict_get_or d ''query'' (VStr []))
                              @ [CHR 0x27] @ ''.'')),
                          (''emails'', VList (email_entries 1 emails))], w1)))
      | _ \<Rightarrow> (failure (''Nu am putut cauta emailuri: '' @ exn_text AttributeError), w))"

definition summarize_email :: "env \<Rightarrow> pyval \<Rightarrow> world \<Rightarrow> pyval \<times> world" where
  "summarize_email env data w =
     (case data of
        VDict d \<Rightarrow>
          (case svc_get_email_by_index env (dict_get_or d ''index'' (VInt 1)) w of
             (Inl e, w1) \<Rightarrow> (failure (''Nu am putut citi emailul: '' @ exn_text e), w1)
           | (Inr (Inl err), w1) \<Rightarrow> (failure err, w1)
           | (Inr (Inr m), w1) \<Rightarrow>
               (VDict [(''success'', VBool True), (''action'', VStr ''summarize_email''),
                       (''message'', VStr ''Am citit emailul pentru rezumat.''),
                       (''email'', email_full m),
                       (''needs_ai_summary'', VBool True)], w1))
      | _ \<Rightarrow> (failure (''Nu am putut citi emailul: '' @ exn_text AttributeError), w))"

definition search_internet :: "env \<Rightarrow> pyval \<Rightarrow> world \<Rightarrow> pyval \<times> world" where
  "search_internet env data w =
     (case data of
        VDict d \<Rightarrow>
          (if \<not> truthy (dict_get_or d ''query'' (VStr [])) then
             (failure ''Nu ai specificat ce sa caut.'', w)
           else
             (case svc_search env (dict_get_or d ''query'' (VStr [])) w of
                (res, w1) \<Rightarrow>
                  (VDict [(''success'', VBool (case res of Inl err \<Rightarrow> False | Inr x \<Rightarrow> True)),
                          (''action'', VStr ''search_internet''),
                          (''query'', dict_get_or d ''query'' (VStr [])),
                          (''results'', VList (case res of Inl err \<Rightarrow> []
                                               | Inr (a, hits) \<Rightarrow> map hit_entry hits)),
                          (''direct_answer'', (case res of Inl err \<Rightarrow> VNone | Inr (a, hits) \<Rightarrow> a)),
                          (''formatted'', VStr (format_results_for_ai env
                              (dict_get_or d ''query'' (VStr [])) res))], w1)))
      | _ \<Rightarrow> (failure (exn_text AttributeError), w))"

section \<open>The calendar service\<close>

text \<open>
  \<^verbatim>\<open>create_event_with_meet\<close>. Not configured, it returns a failure and calls
  nothing. Otherwise it invites the organizer (\<^verbatim>\<open>SMTP_USER\<close>, when set) and every
  other attendee, sends the request and returns the remote event's id, link and
  meeting link, or the failure the remote call ended with.
\<close>

definition cal_create_event_with_meet ::
  "env \<Rightarrow> pyval \<Rightarrow> time \<Rightarrow> time option \<Rightarrow> pyval \<Rightarrow> pyval list \<Rightarrow> bool \<Rightarrow> int \<Rightarrow> world
     \<Rightarrow> pyval \<times> world" where
  "cal_create_event_with_meet env title start_time end_time description attendees
       send_notifications reminder_minutes w =
     (if \<not> calendar_configured env then
        (failure ''Google Calendar not configured. Please set up OAuth credentials.'', w)
      else
        (let end_time' = (case end_time of None \<Rightarrow> start_time + one_hour | Some e \<Rightarrow> e);
             all_attendees =
               (if smtp_user env \<noteq> [] then [VStr (smtp_user env)] else [])
               @ filter (\<lambda>email. email \<noteq> VStr (smtp_user env)) attendees;
             rq = \<lparr> rq_title = title, rq_start = start_time, rq_end = end_time',
                    rq_description = description, rq_attendees = all_attendees,
                    rq_send_notifications = send_notifications,
                    rq_reminder_minutes = reminder_minutes \<rparr>
         in case cal_insert env (trace w) rq of
              Inserted ev_id ev_link meet \<Rightarrow>
                (VDict [(''success'', VBool True),
                        (''event_id'', ev_id),
                        (''event_link'', ev_link),
                        (''meet_link'', meet),
                        (''title'', title),
                        (''start_time'', VStr (isoformat env start_time)),
                        (''end_time'', VStr (isoformat env end_time')),
                        (''attendees'', VList attendees),
                        (''message'', VStr (''Evenimentul '' @ [CHR 0x27]
                            @ py_str (py_repr env) title @ [CHR 0x27]
                            @ '' a fost creat cu Google Meet.''))],
                 emit (CalInsert rq) w)
            | InsertHttpError m \<Rightarrow>
                (failure (''Google Calendar error: '' @ m), emit (CalInsert rq) w)
            | InsertRaised m \<Rightarrow>
                (failure (''Failed to create event: '' @ m), emit (CalInsert rq) w)))"

definition cal_get_upcoming_events :: "env \<Rightarrow> world \<Rightarrow> (string + dict list) \<times> world" where
  "cal_get_upcoming_events env w =
     (if \<not> calendar_configured env then (Inl ''Google Calendar not configured.'', w)
      else (cal_list env (trace w), emit CalList w))"

definition cal_delete_event :: "env \<Rightarrow> string \<Rightarrow> world \<Rightarrow> pyval \<times> world" where
  "cal_delete_event env event_id w =
     (if \<not> calendar_configured env then (failure ''Google Calendar not configured.'', w)
      else
        (case cal_delete env (trace w) event_id of
           None \<Rightarrow>
             (VDict [(''success'', VBool True), (''message'', VStr ''Evenimentul a fost sters.'')],
              emit (CalDelete event_id) w)
         | Some m \<Rightarrow> (failure (''Failed to delete event: '' @ m), emit (CalDelete event_id) w)))"

section \<open>The meeting scheduler\<close>

text \<open>
  \<^verbatim>\<open>app/agent/meeting_scheduler.py\<close>. The job store of the scheduler is the
  association list \<open>jobs\<close>, keyed by job id; \<^verbatim>\<open>add_job(..., replace_existing=True)\<close>
  replaces the job of the same id, \<^verbatim>\<open>remove_job\<close> raises on an id that has no job.
  Starting the scheduler and adding a job are taken to succeed.
\<close>

definition add_job :: "string \<Rightarrow> job \<Rightarrow> world \<Rightarrow> world" where
  "add_job jid j w = emit (SchedAddJob jid) (w\<lparr>jobs := AList.update jid j (jobs w)\<rparr>)"

definition remove_job :: "string \<Rightarrow> world \<Rightarrow> exn + world" where
  "remove_job jid w =
     (case map_of (jobs w) jid of
        None \<Rightarrow> Inl JobLookupError
      | Some j \<Rightarrow> Inr (w\<lparr>jobs := AList.delete jid (jobs w)\<rparr>))"

definition job_id :: "env \<Rightarrow> pyval \<Rightarrow> string \<Rightarrow> string" where
  "job_id env event_id role = ''reminder_'' @ py_str (py_repr env) event_id @ ''_'' @ role"

text \<open>
  \<^verbatim>\<open>
  def _schedule_reminder(self, event_id, reminder_time, title, start_time, meet_link,
                         attendee_email, attendee_name=""):
      if not self._started:
          self.start()
      if SMTP_USER:
          job_id_owner = f"reminder_{event_id}_owner"
          self.scheduler.add_job(..., id=job_id_owner, replace_existing=True)
      if attendee_email and attendee_email != SMTP_USER:
          job_id_attendee = f"reminder_{event_id}_attendee"
          self.scheduler.add_job(..., id=job_id_attendee, replace_existing=True)
      self.scheduled_reminders[event_id] = f"reminder_{event_id}"
  \<close>
\<close>

definition ms_schedule_reminder ::
  "env \<Rightarrow> pyval \<Rightarrow> time \<Rightarrow> pyval \<Rightarrow> time \<Rightarrow> pyval \<Rightarrow> pyval \<Rightarrow> pyval \<Rightarrow> world \<Rightarrow> world" where
  "ms_schedule_reminder env event_id reminder_time title start_time meet_link
       attendee_email attendee_name w =
     (let w0 = (if \<not> started w then emit SchedStart (w\<lparr>started := True\<rparr>) else w);
          w1 = (if smtp_user env \<noteq> [] then
                  add_job (job_id env event_id ''owner'')
                    \<lparr> j_run_date = reminder_time, j_to = VStr (smtp_user env), j_name = VStr [],
                      j_title = title, j_start_time = start_time, j_meet_link = meet_link,
                      j_is_owner = True \<rparr> w0
                else w0);
          w2 = (if truthy attendee_email \<and> attendee_email \<noteq> VStr (smtp_user env) then
                  add_job (job_id env event_id ''attendee'')
                    \<lparr> j_run_date = reminder_time, j_to = attendee_email, j_name = attendee_name,
                      j_title = title, j_start_time = start_time, j_meet_link = meet_link,
                      j_is_owner = False \<rparr> w1
                else w1)
      in w2\<lparr>scheduled_reminders :=
              AList.update event_id (''reminder_'' @ py_str (py_repr env) event_id)
                (scheduled_reminders w2)\<rparr>)"

text \<open>
  \<^verbatim>\<open>cancel_reminder(event_id)\<close>: both removals sit in their own
  \<^verbatim>\<open>try: ... except: pass\<close>; the result is always \<^verbatim>\<open>True\<close>.
\<close>

definition remove_job_quietly :: "string \<Rightarrow> world \<Rightarrow> world" where
  "remove_job_quietly jid w =
     (case remove_job jid (emit (SchedRemoveJob jid) w) of
        Inl e \<Rightarrow> emit (SchedRemoveJob jid) w
      | Inr w' \<Rightarrow> w')"

definition ms_cancel_reminder :: "env \<Rightarrow> string \<Rightarrow> world \<Rightarrow> bool \<times> world" where
  "ms_cancel_reminder env event_id w =
     (let w1 = remove_job_quietly (job_id env (VStr event_id) ''owner'') w;
          w2 = remove_job_quietly (job_id env (VStr event_id) ''attendee'') w1
      in (True, w2\<lparr>scheduled_reminders := AList.delete (VStr event_id) (scheduled_reminders w2)\<rparr>))"

text \<open>
  \<^verbatim>\<open>int(reminder_hours_before * 60)\<close>: a number times 60; a string repeated 60
  times and read as an integer (a ValueError when it is none); anything else a
  TypeError.
\<close>

definition reminder_minutes_of :: "env \<Rightarrow> pyval \<Rightarrow> exn + int" where
  "reminder_minutes_of env v =
     (case v of
        VInt n \<Rightarrow> Inr (n * 60)
      | VBool b \<Rightarrow> Inr (if b then 60 else 0)
      | VStr s \<Rightarrow> (case py_int env (concat (replicate 60 s)) of
                     None \<Rightarrow> Inl ValueError
                   | Some n \<Rightarrow> Inr n)
      | _ \<Rightarrow> Inl TypeError)"

definition send_invitation_email ::
  "env \<Rightarrow> pyval \<Rightarrow> pyval \<Rightarrow> pyval \<Rightarrow> time \<Rightarrow> time \<Rightarrow> pyval \<Rightarrow> pyval \<Rightarrow> world \<Rightarrow> pyval \<times> world" where
  "send_invitation_email env to_email attendee_name title start_time end_time meet_link
       description w =
     svc_send_email env to_email
       (VStr (''Invitatie la intalnire: '' @ py_str (py_repr env) title))
       (InvitationHtml attendee_name title start_time end_time meet_link description) w"

definition send_organizer_confirmation_email ::
  "env \<Rightarrow> pyval \<Rightarrow> time \<Rightarrow> time \<Rightarrow> pyval \<Rightarrow> pyval \<Rightarrow> pyval \<Rightarrow> pyval \<Rightarrow> world \<Rightarrow> pyval \<times> world" where
  "send_organizer_confirmation_email env title start_time end_time meet_link attendee_email
       attendee_name description w =
     svc_send_email env (VStr (smtp_user env))
       (VStr (''Intalnire programata: '' @ py_str (py_repr env) title))
       (ConfirmationHtml title start_time end_time meet_link attendee_email attendee_name
          description) w"

text \<open>
  \<^verbatim>\<open>MeetingSchedulerService.schedule_meeting\<close>, in the order of its statements:
  the remote event, the invitation to the attendee, the confirmation to the
  organizer, the reminder jobs, the result. Any exception becomes
  \<^verbatim>\<open>{"success": False, "error": "Failed to schedule meeting: ..."}\<close>; what was done
  before it stays done.
\<close>

definition ms_schedule_meeting ::
  "env \<Rightarrow> pyval \<Rightarrow> time \<Rightarrow> time option \<Rightarrow> pyval \<Rightarrow> pyval \<Rightarrow> pyval \<Rightarrow> pyval \<Rightarrow> world
     \<Rightarrow> pyval \<times> world" where
  "ms_schedule_meeting env title start_time end_time attendee_email attendee_name description
       reminder_hours_before w =
     (let attendees = (if truthy attendee_email then [attendee_email] else [])
                      @ (if smtp_user env \<noteq> [] then [VStr (smtp_user env)] else []);
          end_time' = (case end_time of None \<Rightarrow> start_time + one_hour | Some e \<Rightarrow> e)
      in case reminder_minutes_of env reminder_hours_before of
           Inl e \<Rightarrow> (failure (''Failed to schedule meeting: '' @ exn_text e), w)
         | Inr reminder_minutes \<Rightarrow>
      (case cal_create_event_with_meet env title start_time (Some end_time') description
              attendees True reminder_minutes w of
         (result, w1) \<Rightarrow>
           (if success_of result \<noteq> Some True then (result, w1)
            else
              (let meet_link = field_of result ''meet_link'';
                   event_id = field_of result ''event_id'';
                   w2 = (if truthy attendee_email
                         then snd (send_invitation_email env attendee_email attendee_name title
                                     start_time end_time' meet_link description w1)
                         else w1);
                   w3 = (if smtp_user env \<noteq> []
                         then snd (send_organizer_confirmation_email env title start_time
                                     end_time' meet_link attendee_email attendee_name
                                     description w2)
                         else w2)
               in case timedelta_hours reminder_hours_before of
                    Inl e \<Rightarrow> (failure (''Failed to schedule meeting: '' @ exn_text e), w3)
                  | Inr lead \<Rightarrow>
                      (VDict [(''success'', VBool True),
                              (''event_id'', event_id),
                              (''meet_link'', meet_link),
                              (''event_link'', field_of result ''event_link''),
                              (''title'', title),
                              (''start_time'', VStr (isoformat env start_time)),
                              (''end_time'', VStr (isoformat env end_time')),
                              (''attendee'', attendee_email),
                              (''reminder_scheduled'', VBool (start_time - lead > now env)),
                              (''reminder_time'',
                                 (if start_time - lead > now env
                                  then VStr (isoformat env (start_time - lead)) else VNone)),
                              (''message'', VStr (''Intalnirea '' @ [CHR 0x27]
                                  @ py_str (py_repr env) title @ [CHR 0x27]
                                  @ '' a fost programata cu succes. Link Google Meet: ''
                                  @ py_str (py_repr env) meet_link))],
                       (if start_time - lead > now env
                        then ms_schedule_reminder env event_id (start_time - lead) title
                               start_time meet_link attendee_email attendee_name w3
                        else w3))))))"

section \<open>Calendar and meeting handlers\<close>

text \<open>
  The start of a meeting: \<^verbatim>\<open>start_time\<close> if given, else \<^verbatim>\<open>date\<close> and
  \<^verbatim>\<open>time\<close> together; \<^verbatim>\<open>None\<close> when neither is given or the parser fails.
\<close>

definition meeting_start :: "env \<Rightarrow> dict \<Rightarrow> time option" where
  "meeting_start env d =
     (if truthy (dict_get d ''start_time'') then parse_date env (dict_get d ''start_time'')
      else if truthy (dict_get d ''date'') \<and> truthy (dict_get d ''time'') then
        parse_date env (VStr (py_str (py_repr env) (dict_get d ''date'') @ '' ''
                              @ py_str (py_repr env) (dict_get d ''time'')))
      else None)"

text \<open>
  The rows \<^verbatim>\<open>_schedule_meeting\<close> adds after the scheduler has succeeded, as the
  flush of the commit inserts them.
\<close>

definition new_meeting_event ::
  "env \<Rightarrow> nat \<Rightarrow> dict \<Rightarrow> pyval \<Rightarrow> time \<Rightarrow> time option \<Rightarrow> exn + calendar_event" where
  "new_meeting_event env i d result start_time end_time =
     (case timedelta_hours (dict_get_or d ''reminder_hours'' (VInt 1)) of
        Inl e \<Rightarrow> Inl e
      | Inr lead \<Rightarrow>
     (case store_text_null env (field_of result ''event_id'') of
        Inl e \<Rightarrow> Inl e
      | Inr google_event_id \<Rightarrow>
     (case store_text env (dict_get_or d ''title'' (VStr ''Intalnire'')) of
        Inl e \<Rightarrow> Inl e
      | Inr title \<Rightarrow>
     (case store_text_null env (dict_get_or d ''description'' (VStr [])) of
        Inl e \<Rightarrow> Inl e
      | Inr description \<Rightarrow>
     (case end_time of
        None \<Rightarrow> Inl IntegrityError
      | Some end_time' \<Rightarrow>
     (case store_text_null env (field_of result ''meet_link'') of
        Inl e \<Rightarrow> Inl e
      | Inr meet_link \<Rightarrow>
     (case store_text_null env (dict_get d ''attendee_email'') of
        Inl e \<Rightarrow> Inl e
      | Inr attendee_email \<Rightarrow>
     (case store_text_null env (dict_get_or d ''attendee_name'' (VStr [])) of
        Inl e \<Rightarrow> Inl e
      | Inr attendee_name \<Rightarrow>
          Inr \<lparr> e_id = i, e_google_event_id = google_event_id, e_title = title,
                e_description = description, e_start_time = start_time,
                e_end_time = end_time', e_meet_link = meet_link,
                e_attendee_email = attendee_email, e_attendee_name = attendee_name,
                e_reminder_sent = False, e_reminder_time = Some (start_time - lead),
                e_status = ''scheduled'', e_created_at = utcnow env,
                e_updated_at = utcnow env \<rparr>))))))))"

definition new_meeting_action :: "env \<Rightarrow> nat \<Rightarrow> dict \<Rightarrow> pyval \<Rightarrow> exn + agent_action" where
  "new_meeting_action env i d result =
     (case store_text_null env (dict_get d ''attendee_email'') of
        Inl e \<Rightarrow> Inl e
      | Inr target \<Rightarrow>
          Inr \<lparr> a_id = i, a_action_type = ''schedule_meeting'', a_target = target,
                a_content = Some (''Meeting: ''
                    @ py_str (py_repr env) (dict_get_or d ''title'' (VStr ''Intalnire''))
                    @ '', Meet: '' @ py_str (py_repr env) (field_of result ''meet_link'')),
                a_status = ''completed'', a_created_at = utcnow env,
                a_executed_at = Some (utcnow env) \<rparr>)"

text \<open>The end of a meeting: parsed when given (the parser may fail), else start plus duration.\<close>

definition meeting_end :: "env \<Rightarrow> dict \<Rightarrow> time \<Rightarrow> exn + time option" where
  "meeting_end env d start_time =
     (if truthy (dict_get d ''end_time'') then Inr (parse_date env (dict_get d ''end_time''))
      else (case timedelta_minutes (dict_get_or d ''duration_minutes'' (VInt 60)) of
              Inl e \<Rightarrow> Inl e
            | Inr m \<Rightarrow> Inr (Some (start_time + m))))"

definition schedule_meeting :: "env \<Rightarrow> pyval \<Rightarrow> world \<Rightarrow> pyval \<times> world" where
  "schedule_meeting env data w =
     (case data of
        VDict d \<Rightarrow>
          (case meeting_start env d of
             None \<Rightarrow> (failure ''Nu am putut determina data si ora intalnirii.'', w)
           | Some start_time \<Rightarrow>
          (if start_time \<le> now env then
             (failure ''Data intalnirii trebuie sa fie in viitor.'', w)
           else
          (case meeting_end env d start_time of
             Inl e \<Rightarrow> (failure (exn_text e), w)
           | Inr end_time \<Rightarrow>
          (case (if truthy (dict_get d ''attendee_email'')
                 then validate_email env (dict_get d ''attendee_email'') else Inr True) of
             Inl e \<Rightarrow> (failure (exn_text e), w)
           | Inr False \<Rightarrow>
               (failure (''Adresa de email '' @ [CHR 0x27]
                  @ py_str (py_repr env) (dict_get d ''attendee_email'') @ [CHR 0x27]
                  @ '' nu este valida.''), w)
           | Inr True \<Rightarrow>
          (case ms_schedule_meeting env (dict_get_or d ''title'' (VStr ''Intalnire''))
                  start_time end_time (dict_get d ''attendee_email'')
                  (dict_get_or d ''attendee_name'' (VStr []))
                  (dict_get_or d ''description'' (VStr []))
                  (dict_get_or d ''reminder_hours'' (VInt 1)) w of
             (result, w1) \<Rightarrow>
               (if success_of result = Some True then
                  (case new_meeting_event env (next_id (map e_id (calendar_events w1))) d
                          result start_time end_time of
                     Inl e \<Rightarrow> (failure (exn_text e), w1)
                   | Inr event \<Rightarrow>
                  (case new_meeting_action env (next_id (map a_id (agent_actions w1))) d
                          result of
                     Inl e \<Rightarrow> (failure (exn_text e), w1)
                   | Inr action \<Rightarrow>
                       (VDict [(''success'', VBool True),
                               (''action'', VStr ''schedule_meeting''),
                               (''event_id'', field_of result ''event_id''),
                               (''meet_link'', field_of result ''meet_link''),
                               (''title'', dict_get_or d ''title'' (VStr ''Intalnire'')),
                               (''start_time'', VStr (isoformat env start_time)),
                               (''attendee'', dict_get d ''attendee_email''),
                               (''message'', field_of result ''message'')],
                        commit (w1\<lparr>calendar_events := calendar_events w1 @ [event],
                                    agent_actions := agent_actions w1 @ [action]\<rparr>))))
                else (result, w1)))))))
      | _ \<Rightarrow> (failure (exn_text AttributeError), w))"

text \<open>\<^verbatim>\<open>_add_calendar_event\<close>: an event without invitations.\<close>

definition event_start :: "env \<Rightarrow> dict \<Rightarrow> time option" where
  "event_start env d =
     (if truthy (dict_get d ''start_time'') then parse_date env (dict_get d ''start_time'')
      else if truthy (dict_get d ''date'') then
        parse_date env (VStr (py_str (py_repr env) (dict_get d ''date'') @ '' ''
                              @ py_str (py_repr env) (dict_get_or d ''time'' (VStr ''09:00''))))
      else None)"

definition new_plain_event ::
  "env \<Rightarrow> nat \<Rightarrow> dict \<Rightarrow> pyval \<Rightarrow> time \<Rightarrow> time \<Rightarrow> exn + calendar_event" where
  "new_plain_event env i d result start_time end_time =
     (case store_text_null env (field_of result ''event_id'') of
        Inl e \<Rightarrow> Inl e
      | Inr google_event_id \<Rightarrow>
     (case store_text env (dict_get_or d ''title'' (VStr ''Eveniment'')) of
        Inl e \<Rightarrow> Inl e
      | Inr title \<Rightarrow>
     (case store_text_null env (dict_get_or d ''description'' (VStr [])) of
        Inl e \<Rightarrow> Inl e
      | Inr description \<Rightarrow>
          Inr \<lparr> e_id = i, e_google_event_id = google_event_id, e_title = title,
                e_description = description, e_start_time = start_time,
                e_end_time = end_time, e_meet_link = None,
                e_attendee_email = None, e_attendee_name = None,
                e_reminder_sent = False, e_reminder_time = None,
                e_status = ''scheduled'', e_created_at = utcnow env,
                e_updated_at = utcnow env \<rparr>)))"

definition add_calendar_event :: "env \<Rightarrow> pyval \<Rightarrow> world \<Rightarrow> pyval \<times> world" where
  "add_calendar_event env data w =
     (case data of
        VDict d \<Rightarrow>
          (case event_start env d of
             None \<Rightarrow> (failure ''Nu am putut determina data evenimentului.'', w)
           | Some start_time \<Rightarrow>
          (case timedelta_minutes (dict_get_or d ''duration_minutes'' (VInt 60)) of
             Inl e \<Rightarrow> (failure (exn_text e), w)
           | Inr m \<Rightarrow>
          (case cal_create_event_with_meet env (dict_get_or d ''title'' (VStr ''Eveniment''))
                  start_time (Some (start_time + m))
                  (dict_get_or d ''description'' (VStr [])) [] False 60 w of
             (result, w1) \<Rightarrow>
               (if success_of result = Some True then
                  (case new_plain_event env (next_id (map e_id (calendar_events w1))) d result
                          start_time (start_time + m) of
                     Inl e \<Rightarrow> (failure (exn_text e), w1)
                   | Inr event \<Rightarrow>
                       (VDict [(''success'', VBool True),
                               (''action'', VStr ''add_calendar_event''),
                               (''event_id'', field_of result ''event_id''),
                               (''title'', dict_get_or d ''title'' (VStr ''Eveniment'')),
                               (''start_time'', VStr (isoformat env start_time)),
                               (''message'', VStr (''Evenimentul '' @ [CHR 0x27]
                                   @ py_str (py_repr env)
                                       (dict_get_or d ''title'' (VStr ''Eveniment''))
                                   @ [CHR 0x27] @ '' a fost adaugat in calendar.''))],
                        commit (w1\<lparr>calendar_events := calendar_events w1 @ [event]\<rparr>)))
                else (result, w1)))))
      | _ \<Rightarrow> (failure (exn_text AttributeError), w))"

text \<open>
  \<^verbatim>\<open>_list_calendar_events\<close>: the remote calendar's list, or, when the remote query
  fails, the local rows that are scheduled and start now or later, ascending by
  start, ten at most.
\<close>

definition remote_event_entry :: "dict \<Rightarrow> pyval" where
  "remote_event_entry ev =
     VDict [(''title'', dict_get ev ''title''), (''start'', dict_get ev ''start''),
            (''end'', dict_get ev ''end''), (''meet_link'', dict_get ev ''meet_link''),
            (''attendees'', dict_get_or ev ''attendees'' (VList []))]"

definition local_event_entry :: "env \<Rightarrow> calendar_event \<Rightarrow> pyval" where
  "local_event_entry env ev =
     VDict [(''id'', VInt (int (e_id ev))), (''title'', VStr (e_title ev)),
            (''start'', VStr (isoformat env (e_start_time ev))),
            (''end'', VStr (isoformat env (e_end_time ev))),
            (''meet_link'', opt_str (e_meet_link ev)),
            (''attendee'', opt_str (e_attendee_email ev))]"

definition list_calendar_events :: "env \<Rightarrow> pyval \<Rightarrow> world \<Rightarrow> pyval \<times> world" where
  "list_calendar_events env data w =
     (case cal_get_upcoming_events env w of
        (Inr [], w1) \<Rightarrow>
          (VDict [(''success'', VBool True), (''action'', VStr ''list_calendar_events''),
                  (''count'', VInt 0), (''events'', VList []),
                  (''message'', VStr ''Nu ai evenimente programate.'')], w1)
      | (Inr events, w1) \<Rightarrow>
          (VDict [(''success'', VBool True), (''action'', VStr ''list_calendar_events''),
                  (''count'', VInt (int (length events))),
                  (''events'', VList (map remote_event_entry events)),
                  (''message'', VStr (''Ai '' @ str_int (int (length events))
                      @ '' evenimente programate.''))], w1)
      | (Inl err, w1) \<Rightarrow>
          (let events = take 10 (sort_key e_start_time
                 (filter (\<lambda>ev. e_start_time ev \<ge> now env \<and> e_status ev = ''scheduled'')
                    (calendar_events w1)))
           in (VDict [(''success'', VBool True), (''action'', VStr ''list_calendar_events''),
                      (''count'', VInt (int (length events))),
                      (''events'', VList (map (local_event_entry env) events)),
                      (''message'', VStr (''Ai '' @ str_int (int (length events))
                          @ '' evenimente programate.''))], w1)))"

text \<open>
  \<^verbatim>\<open>
  if data.get("event_id"):
      event = db.query(CalendarEvent).filter(CalendarEvent.id == data["event_id"]).first()
  elif data.get("google_event_id"):
      event = db.query(CalendarEvent).filter(
          CalendarEvent.google_event_id == data["google_event_id"]).first()
  elif data.get("title"):
      event = db.query(CalendarEvent).filter(
          CalendarEvent.title.ilike(f"%{data['title']}%"),
          CalendarEvent.status == "scheduled").first()
  \<close>
\<close>

definition find_event :: "env \<Rightarrow> dict \<Rightarrow> calendar_event list \<Rightarrow> exn + calendar_event option" where
  "find_event env d evs =
     (if truthy (dict_get d ''event_id'') then
        (case id_filter env (dict_get d ''event_id'') of
           Inl e \<Rightarrow> Inl e
         | Inr p \<Rightarrow> Inr (find (\<lambda>ev. p (e_id ev)) evs))
      else if truthy (dict_get d ''google_event_id'') then
        (case text_filter env (dict_get d ''google_event_id'') of
           Inl e \<Rightarrow> Inl e
         | Inr p \<Rightarrow> Inr (find (\<lambda>ev. p (e_google_event_id ev)) evs))
      else if truthy (dict_get d ''title'') then
        Inr (find (\<lambda>ev. ilike_contains (py_str (py_repr env) (dict_get d ''title'')) (e_title ev)
                         \<and> e_status ev = ''scheduled'') evs)
      else Inr None)"

text \<open>
  \<^verbatim>\<open>
  if event.google_event_id:
      calendar_service.delete_event(event.google_event_id)
      meeting_scheduler.cancel_reminder(event.google_event_id)
  \<close>
\<close>

definition cancel_remote :: "env \<Rightarrow> calendar_event \<Rightarrow> world \<Rightarrow> world" where
  "cancel_remote env event w =
     (case e_google_event_id event of
        None \<Rightarrow> w
      | Some gid \<Rightarrow>
          (if gid = [] then w
           else snd (ms_cancel_reminder env gid (snd (cal_delete_event env gid w)))))"

definition cancel_calendar_event :: "env \<Rightarrow> pyval \<Rightarrow> world \<Rightarrow> pyval \<times> world" where
  "cancel_calendar_event env data w =
     (case data of
        VDict d \<Rightarrow>
          (case find_event env d (calendar_events w) of
             Inl e \<Rightarrow> (failure (exn_text e), w)
           | Inr None \<Rightarrow> (failure ''Evenimentul nu a fost gasit.'', w)
           | Inr (Some event) \<Rightarrow>
               (let w1 = cancel_remote env event w
                in (VDict [(''success'', VBool True),
                           (''action'', VStr ''cancel_calendar_event''),
                           (''message'', VStr (''Evenimentul '' @ [CHR 0x27] @ e_title event
                               @ [CHR 0x27] @ '' a fost anulat.''))],
                    commit (w1\<lparr>calendar_events :=
                      map (\<lambda>ev. if e_id ev = e_id event
                                then ev\<lparr>e_status := ''cancelled'', e_updated_at := utcnow env\<rparr>
                                else ev) (calendar_events w1)\<rparr>))))
      | _ \<Rightarrow> (failure (exn_text AttributeError), w))"

section \<open>The dispatcher\<close>

text \<open>
  \<^verbatim>\<open>
  handler = action_handlers.get(intent)
  if handler:
      return handler(action_data or {}, db)
  return {"success": False, "error": f"Unknown intent: {intent}"}
  \<close>
\<close>

definition action_handlers :: "(string \<times> (env \<Rightarrow> pyval \<Rightarrow> world \<Rightarrow> pyval \<times> world)) list" where
  "action_handlers =
     [(''add_task'', add_task),
      (''list_tasks'', list_tasks),
      (''complete_task'', complete_task),
      (''delete_task'', delete_task),
      (''add_shopping_item'', add_shopping_item),
      (''list_shopping'', list_shopping),
      (''remove_shopping_item'', remove_shopping_item),
      (''send_email'', send_email),
      (''read_emails'', read_emails),
      (''read_last_email'', read_last_email),
      (''search_emails'', search_emails),
      (''summarize_email'', summarize_email),
      (''search_internet'', search_internet),
      (''schedule_meeting'', schedule_meeting),
      (''add_calendar_event'', add_calendar_event),
      (''list_calendar_events'', list_calendar_events),
      (''cancel_calendar_event'', cancel_calendar_event)]"

definition execute :: "env \<Rightarrow> string \<Rightarrow> pyval \<Rightarrow> world \<Rightarrow> pyval \<times> world" where
  "execute env intent action_data w =
     (case map_of action_handlers intent of
        Some handler \<Rightarrow> handler env (if truthy action_data then action_data else VDict []) w
      | None \<Rightarrow>
          (VDict [(''success'', VBool False),
                  (''error'', VStr (''Unknown intent: '' @ intent))], w))"

section \<open>Reading a trace\<close>




section \<open>A concrete environment\<close>

text \<open>
  An environment and a world to run the handlers on: instants count from the
  midnight that starts 1 January 2026, the clock reads 11 April 2026, 10:00, every
  remote service answers, and the driver accepts nothing but values of the column's
  type. The parser knows three texts.
\<close>

definition demo_parse :: "string \<Rightarrow> time option" where
  "demo_parse s =
     (if s = ''2030-01-01 10:00'' then Some (1461 * one_day + 10 * one_hour)
      else if s = ''2026-04-11 10:30'' then Some (100 * one_day + 10 * one_hour + 30 * one_minute)
      else if s = ''2025-12-31 09:00'' then Some (- 15 * one_hour)
      else None)"

definition demo_env :: env where
  "demo_env =
     \<lparr> smtp_user = ''owner@example.com'',
       smtp_password = ''secret'',
       calendar_configured = True,
       now = 100 * one_day + 10 * one_hour,
       utcnow = 100 * one_day + 7 * one_hour,
       parse = demo_parse,
       re_match_email = (\<lambda>s. CHR ''@'' \<in> set s),
       py_repr = (\<lambda>v. ''[]''),
       py_int = (\<lambda>s. None),
       isoformat = str_int,
       db_text = (\<lambda>v. None),
       db_num = (\<lambda>v. None),
       db_id_eq = (\<lambda>v. None),
       db_text_eq = (\<lambda>v. None),
       cal_insert = (\<lambda>tr rq. Inserted (VStr ''evt1'') (VStr ''https://calendar.example/evt1'')
                                (VStr ''https://meet.example/abc'')),
       cal_delete = (\<lambda>tr i. None),
       cal_list = (\<lambda>tr. Inr []),
       smtp_send = (\<lambda>tr a b c. SmtpSent),
       imap_recent = (\<lambda>tr n. Inr []),
       ddg_search = (\<lambda>tr q. Inr (VNone, [])) \<rparr>"

definition empty_world :: world where
  "empty_world =
     \<lparr> tasks = [], shopping_items = [], calendar_events = [], agent_actions = [],
       jobs = [], scheduled_reminders = [], started = False, trace = [] \<rparr>"


definition doctor_task :: task where
  "doctor_task =
     \<lparr> t_id = 1, t_title = ''Sun la doctor'', t_description = None, t_due_date = None,
       t_reminder_date = None, t_is_completed = True, t_priority = VInt 1,
       t_category = None, t_created_at = 0, t_updated_at = 0 \<rparr>"

definition dated_task :: task where
  "dated_task =
     \<lparr> t_id = 1, t_title = ''plata chirie'', t_description = None,
       t_due_date = Some (100 * one_day + 18 * one_hour),
       t_reminder_date = None, t_is_completed = False, t_priority = VInt 1,
       t_category = None, t_created_at = 0, t_updated_at = 0 \<rparr>"

definition undated_task :: task where
  "undated_task =
     \<lparr> t_id = 2, t_title = ''curatenie'', t_description = None, t_due_date = None,
       t_reminder_date = None, t_is_completed = False, t_priority = VInt 1,
       t_category = None, t_created_at = 0, t_updated_at = 0 \<rparr>"

text \<open>The batch of the specification's scenario, without diacritics.\<close>

definition three_items :: pyval where
  "three_items =
     VList [VDict [(''name'', VStr ''lapte'')],
            VDict [(''name'', VStr ''paine'')],
            VDict [(''name'', VStr ''oua'')]]"

text \<open>
  A meeting as \<^verbatim>\<open>_schedule_meeting\<close> leaves it, with both of its reminder jobs,
  and an event that exists in the local store only.
\<close>

definition meeting_event :: calendar_event where
  "meeting_event =
     \<lparr> e_id = 1, e_google_event_id = Some ''evt1'', e_title = ''Sedinta proiect'',
       e_description = None, e_start_time = 1461 * one_day + 10 * one_hour,
       e_end_time = 1461 * one_day + 11 * one_hour,
       e_meet_link = Some ''https://meet.example/abc'',
       e_attendee_email = Some ''ana@example.com'', e_attendee_name = Some ''Ana'',
       e_reminder_sent = False, e_reminder_time = Some (1461 * one_day + 9 * one_hour),
       e_status = ''scheduled'', e_created_at = 0, e_updated_at = 0 \<rparr>"

definition local_event :: calendar_event where
  "local_event =
     \<lparr> e_id = 2, e_google_event_id = None, e_title = ''Dentist'',
       e_description = None, e_start_time = 1461 * one_day + 10 * one_hour,
       e_end_time = 1461 * one_day + 11 * one_hour, e_meet_link = None,
       e_attendee_email = None, e_attendee_name = None,
       e_reminder_sent = False, e_reminder_time = None,
       e_status = ''scheduled'', e_created_at = 0, e_updated_at = 0 \<rparr>"

definition owner_job :: job where
  "owner_job =
     \<lparr> j_run_date = 1461 * one_day + 9 * one_hour, j_to = VStr ''owner@example.com'',
       j_name = VStr [], j_title = VStr ''Sedinta proiect'',
       j_start_time = 1461 * one_day + 10 * one_hour,
       j_meet_link = VStr ''https://meet.example/abc'', j_is_owner = True \<rparr>"

definition attendee_job :: job where
  "attendee_job =
     \<lparr> j_run_date = 1461 * one_day + 9 * one_hour, j_to = VStr ''ana@example.com'',
       j_name = VStr ''Ana'', j_title = VStr ''Sedinta proiect'',
       j_start_time = 1461 * one_day + 10 * one_hour,
       j_meet_link = VStr ''https://meet.example/abc'', j_is_owner = False \<rparr>"

definition meeting_world :: world where
  "meeting_world =
     \<lparr> tasks = [], shopping_items = [], calendar_events = [meeting_event, local_event],
       agent_actions = [],
       jobs = [(''reminder_evt1_owner'', owner_job), (''reminder_evt1_attendee'', attendee_job)],
       scheduled_reminders = [(VStr ''evt1'', ''reminder_evt1'')],
       started = True, trace = [] \<rparr>"




section \<open>Properties\<close>

subsection \<open>Suffix stripping and the lookup of a shopping item\<close>















subsection \<open>Name lookup of tasks\<close>

text \<open>
  C8 at a failing input. The title lookup of \<^verbatim>\<open>complete_task\<close> and
  \<^verbatim>\<open>delete_task\<close> has no filter on \<^verbatim>\<open>is_completed\<close>: with the one stored task
  \<^verbatim>\<open>Sun la doctor\<close> already completed, the title \<^verbatim>\<open>doctor\<close> resolves to it,
  \<^verbatim>\<open>complete_task\<close> reports success and \<^verbatim>\<open>delete_task\<close> deletes it.
\<close>

theorem task_title_lookup_matches_completed_task:
  "t_is_completed doctor_task
   \<and> find_task demo_env [(''task_title'', VStr ''doctor'')] [doctor_task] = Inr (Some doctor_task)
   \<and> success_of (fst (complete_task demo_env (VDict [(''task_title'', VStr ''doctor'')])
        (empty_world\<lparr>tasks := [doctor_task]\<rparr>))) = Some True
   \<and> success_of (fst (delete_task demo_env (VDict [(''task_title'', VStr ''doctor'')])
        (empty_world\<lparr>tasks := [doctor_task]\<rparr>))) = Some True
   \<and> tasks (snd (delete_task demo_env (VDict [(''task_title'', VStr ''doctor'')])
        (empty_world\<lparr>tasks := [doctor_task]\<rparr>))) = []"
proof -
  have l: "ilike_contains ''doctor'' ''Sun la doctor''" by code_simp
  have f: "find_task demo_env [(''task_title'', VStr ''doctor'')] [doctor_task] = Inr (Some doctor_task)"
    using l by (simp add: find_task_def dict_get_def doctor_task_def)
  show ?thesis using f
    by (simp add: complete_task_def delete_task_def success_of_def empty_world_def
        commit_def emit_def doctor_task_def)
qed

subsection \<open>Listing tasks\<close>

lemma nulls_first_le_total:
  "nulls_first_le x y \<or> nulls_first_le y x"
  by (cases x; cases y) auto

lemma nulls_first_le_trans:
  "nulls_first_le x y \<Longrightarrow> nulls_first_le y z \<Longrightarrow> nulls_first_le x z"
  by (cases x; cases y; cases z) auto

lemma set_insert_by_due: "set (insert_by_due t us) = insert t (set us)"
  by (induction us) auto

lemma mset_insert_by_due: "mset (insert_by_due t us) = add_mset t (mset us)"
  by (induction us) auto

lemma sorted_insert_by_due:
  "sorted_wrt (\<lambda>a b. nulls_first_le (t_due_date a) (t_due_date b)) us \<Longrightarrow>
   sorted_wrt (\<lambda>a b. nulls_first_le (t_due_date a) (t_due_date b)) (insert_by_due t us)"
proof (induction us)
  case Nil
  then show ?case by simp
next
  case (Cons u us)
  show ?case
  proof (cases "nulls_first_le (t_due_date t) (t_due_date u)")
    case True
    then show ?thesis using Cons.prems
      by (auto intro: nulls_first_le_trans)
  next
    case False
    then have "nulls_first_le (t_due_date u) (t_due_date t)"
      using nulls_first_le_total by blast
    then show ?thesis using False Cons
      by (auto simp: set_insert_by_due)
  qed
qed

lemma mset_order_by_due: "mset (order_by_due_nullsfirst ts) = mset ts"
  unfolding order_by_due_nullsfirst_def by (induction ts) (auto simp: mset_insert_by_due)

lemma sorted_order_by_due:
  "sorted_wrt (\<lambda>a b. nulls_first_le (t_due_date a) (t_due_date b)) (order_by_due_nullsfirst ts)"
  unfolding order_by_due_nullsfirst_def by (induction ts) (auto intro: sorted_insert_by_due)

lemma list_tasks_query_rows:
  "list_tasks_query env d ts = Inr rows \<Longrightarrow>
   \<exists>q. rows = order_by_due_nullsfirst
              (if truthy (dict_get d ''today'') then filter (due_today env) q else q)
       \<and> set q \<subseteq> set (active_tasks ts)
       \<and> (truthy (dict_get d ''category'') \<or> q = active_tasks ts)"
  unfolding list_tasks_query_def by (auto split: if_splits sum.splits)

text \<open>
  C9, as the code has it. \<^verbatim>\<open>list_tasks\<close> returns tasks that are not completed,
  ordered by due date ascending with the tasks without a due date before all dated
  ones (NULLS FIRST). With \<^verbatim>\<open>today\<close> set, every returned task has a due date
  within the local calendar day of the clock, so tasks without a due date are left
  out. Without a category filter nothing else is left out: the rows are a permutation
  of the tasks not completed (that are due today, when \<^verbatim>\<open>today\<close> is set).
\<close>

theorem list_tasks_nulls_first_and_today:
  "list_tasks_query env d (tasks w) = Inr rows \<Longrightarrow>
     sorted_wrt (\<lambda>a b. nulls_first_le (t_due_date a) (t_due_date b)) rows
   \<and> (\<forall>i j. i < j \<and> j < length rows \<and> t_due_date (rows ! j) = None
          \<longrightarrow> t_due_date (rows ! i) = None)
   \<and> (\<forall>r \<in> set rows. r \<in> set (tasks w) \<and> \<not> t_is_completed r)
   \<and> (truthy (dict_get d ''today'') \<longrightarrow>
        (\<forall>r \<in> set rows. \<exists>due. t_due_date r = Some due
            \<and> day_start (now env) \<le> due \<and> due < day_start (now env) + one_day))
   \<and> (\<not> truthy (dict_get d ''category'') \<longrightarrow>
        mset rows = mset (filter (\<lambda>t. \<not> t_is_completed t
            \<and> (if truthy (dict_get d ''today'') then due_today env t else True)) (tasks w)))
   \<and> list_tasks env (VDict d) w =
        (VDict [(''success'', VBool True), (''action'', VStr ''list_tasks''),
                (''count'', VInt (int (length rows))),
                (''tasks'', VList (map (task_entry env) rows))], w)"
proof -
  assume a: "list_tasks_query env d (tasks w) = Inr rows"
  let ?R = "\<lambda>a b. nulls_first_le (t_due_date a) (t_due_date b)"
  obtain q where q: "rows = order_by_due_nullsfirst
              (if truthy (dict_get d ''today'') then filter (due_today env) q else q)"
     "set q \<subseteq> set (active_tasks (tasks w))"
     "truthy (dict_get d ''category'') \<or> q = active_tasks (tasks w)"
    using list_tasks_query_rows [OF a] by blast
  have s: "sorted_wrt ?R rows" using q(1) sorted_order_by_due by simp
  have n: "\<forall>i j. i < j \<and> j < length rows \<and> t_due_date (rows ! j) = None
          \<longrightarrow> t_due_date (rows ! i) = None"
  proof (intro allI impI)
    fix i j assume ij: "i < j \<and> j < length rows \<and> t_due_date (rows ! j) = None"
    then have "?R (rows ! i) (rows ! j)"
      using s sorted_wrt_nth_less [of ?R rows i j] by blast
    then show "t_due_date (rows ! i) = None"
      using ij by (cases "t_due_date (rows ! i)") auto
  qed
  have ms: "mset rows = mset (if truthy (dict_get d ''today'') then filter (due_today env) q else q)"
    using q(1) mset_order_by_due by simp
  then have st: "set rows = set (if truthy (dict_get d ''today'') then filter (due_today env) q else q)"
    by (metis set_mset_mset)
  have m: "\<forall>r \<in> set rows. r \<in> set (tasks w) \<and> \<not> t_is_completed r"
    using st q(2) by (auto simp: active_tasks_def split: if_splits)
  have t: "truthy (dict_get d ''today'') \<longrightarrow>
        (\<forall>r \<in> set rows. \<exists>due. t_due_date r = Some due
            \<and> day_start (now env) \<le> due \<and> due < day_start (now env) + one_day)"
    using st by (auto simp: due_today_def split: option.splits)
  have c: "\<not> truthy (dict_get d ''category'') \<longrightarrow>
        mset rows = mset (filter (\<lambda>t. \<not> t_is_completed t
            \<and> (if truthy (dict_get d ''today'') then due_today env t else True)) (tasks w))"
  proof
    assume "\<not> truthy (dict_get d ''category'')"
    then have "q = active_tasks (tasks w)" using q(3) by blast
    then show "mset rows = mset (filter (\<lambda>t. \<not> t_is_completed t
            \<and> (if truthy (dict_get d ''today'') then due_today env t else True)) (tasks w))"
      using ms by (simp add: active_tasks_def)
  qed
  have l: "list_tasks env (VDict d) w =
        (VDict [(''success'', VBool True), (''action'', VStr ''list_tasks''),
                (''count'', VInt (int (length rows))),
                (''tasks'', VList (map (task_entry env) rows))], w)"
    using a by (simp add: list_tasks_def)
  show ?thesis using s n m t c l by blast
qed

theorem list_tasks_nulls_first_and_today_witness:
  "list_tasks_query demo_env [(''today'', VBool True)] [dated_task, undated_task, doctor_task]
     = Inr [dated_task]
   \<and> t_due_date dated_task = Some (100 * one_day + 18 * one_hour)
   \<and> day_start (now demo_env) \<le> 100 * one_day + 18 * one_hour
   \<and> 100 * one_day + 18 * one_hour < day_start (now demo_env) + one_day
   \<and> field_of (fst (list_tasks demo_env (VDict [(''today'', VBool True)])
        (empty_world\<lparr>tasks := [dated_task, undated_task, doctor_task]\<rparr>))) ''count'' = VInt 1"
proof -
  have q: "list_tasks_query demo_env [(''today'', VBool True)] [dated_task, undated_task, doctor_task]
     = Inr [dated_task]"
    by (simp add: list_tasks_query_def dict_get_def active_tasks_def due_today_def
        order_by_due_nullsfirst_def dated_task_def undated_task_def doctor_task_def
        demo_env_def day_start_def one_day_def one_hour_def)
  have q': "list_tasks_query demo_env [(''today'', VBool True)]
      (tasks (empty_world\<lparr>tasks := [dated_task, undated_task, doctor_task]\<rparr>)) = Inr [dated_task]"
    using q by simp
  show ?thesis
    using list_tasks_nulls_first_and_today [OF q'] q
    by (simp add: field_of_def dict_get_def dated_task_def demo_env_def day_start_def
        one_day_def one_hour_def)
qed

text \<open>
  The claim's order (tasks without a due date after all dated ones) fails on a dated
  and an undated task: the undated one comes first.
\<close>

theorem list_tasks_puts_undated_first:
  "list_tasks_query demo_env [] [dated_task, undated_task] = Inr [undated_task, dated_task]
   \<and> t_due_date undated_task = None
   \<and> t_due_date dated_task = Some (100 * one_day + 18 * one_hour)"
  by (simp add: list_tasks_query_def dict_get_def active_tasks_def
      order_by_due_nullsfirst_def dated_task_def undated_task_def)

subsection \<open>Adding tasks and shopping items\<close>

lemma success_of_failure: "success_of (failure m) = Some False"
  by (simp add: success_of_def failure_def)











subsection \<open>Cancelling a calendar event\<close>




lemma remove_job_quietly_rest:
  "calendar_events (remove_job_quietly jid w) = calendar_events w
   \<and> tasks (remove_job_quietly jid w) = tasks w
   \<and> shopping_items (remove_job_quietly jid w) = shopping_items w
   \<and> agent_actions (remove_job_quietly jid w) = agent_actions w
   \<and> trace (remove_job_quietly jid w) = trace w @ [SchedRemoveJob jid]"
  by (simp add: remove_job_quietly_def remove_job_def emit_def split: option.splits)

lemma cal_delete_event_rest:
  "jobs (snd (cal_delete_event env g w)) = jobs w
   \<and> calendar_events (snd (cal_delete_event env g w)) = calendar_events w
   \<and> scheduled_reminders (snd (cal_delete_event env g w)) = scheduled_reminders w"
  by (simp add: cal_delete_event_def emit_def split: option.splits)

lemma cancel_remote_events:
  "calendar_events (cancel_remote env event w) = calendar_events w"
  by (simp add: cancel_remote_def ms_cancel_reminder_def Let_def remove_job_quietly_rest
      cal_delete_event_rest split: option.splits)


lemma cancel_calendar_event_found:
  "find_event env d (calendar_events w) = Inr (Some event) \<Longrightarrow>
   cancel_calendar_event env (VDict d) w =
     (VDict [(''success'', VBool True), (''action'', VStr ''cancel_calendar_event''),
             (''message'', VStr (''Evenimentul '' @ [CHR 0x27] @ e_title event
                 @ [CHR 0x27] @ '' a fost anulat.''))],
      commit ((cancel_remote env event w)\<lparr>calendar_events :=
        map (\<lambda>ev. if e_id ev = e_id event
                  then ev\<lparr>e_status := ''cancelled'', e_updated_at := utcnow env\<rparr>
                  else ev) (calendar_events w)\<rparr>))"
  by (simp add: cancel_calendar_event_def Let_def cancel_remote_events)

text \<open>
  C10. When the event \<^verbatim>\<open>cancel_calendar_event\<close> resolves has no external event id
  (NULL, or the empty string, which the \<^verbatim>\<open>if\<close> treats alike), the handler calls
  neither the remote calendar nor the job scheduler: the trace grows by the commit
  alone and the jobs stay as they were. The row of the event gets status
  \<^verbatim>\<open>cancelled\<close> and \<^verbatim>\<open>updated_at\<close> of the UTC clock, every other row stays, and
  the result is \<^verbatim>\<open>success: True\<close>.
\<close>

theorem cancel_event_without_external_id:
  "find_event env d (calendar_events w) = Inr (Some event) \<Longrightarrow>
   e_google_event_id event = None \<or> e_google_event_id event = Some [] \<Longrightarrow>
     success_of (fst (cancel_calendar_event env (VDict d) w)) = Some True
   \<and> trace (snd (cancel_calendar_event env (VDict d) w)) = trace w @ [DbCommit]
   \<and> jobs (snd (cancel_calendar_event env (VDict d) w)) = jobs w
   \<and> scheduled_reminders (snd (cancel_calendar_event env (VDict d) w)) = scheduled_reminders w
   \<and> calendar_events (snd (cancel_calendar_event env (VDict d) w)) =
       map (\<lambda>ev. if e_id ev = e_id event
                 then ev\<lparr>e_status := ''cancelled'', e_updated_at := utcnow env\<rparr>
                 else ev) (calendar_events w)"
proof -
  assume f: "find_event env d (calendar_events w) = Inr (Some event)"
    and g: "e_google_event_id event = None \<or> e_google_event_id event = Some []"
  have r: "cancel_remote env event w = w"
    using g by (auto simp: cancel_remote_def)
  show ?thesis
    unfolding cancel_calendar_event_found [OF f] r
    by (simp add: success_of_def commit_def emit_def)
qed

theorem cancel_event_without_external_id_witness:
  "find_event demo_env [(''title'', VStr ''dentist'')] (calendar_events meeting_world)
     = Inr (Some local_event)
   \<and> e_google_event_id local_event = None
   \<and> success_of (fst (cancel_calendar_event demo_env (VDict [(''title'', VStr ''dentist'')])
        meeting_world)) = Some True
   \<and> trace (snd (cancel_calendar_event demo_env (VDict [(''title'', VStr ''dentist'')])
        meeting_world)) = [DbCommit]
   \<and> jobs (snd (cancel_calendar_event demo_env (VDict [(''title'', VStr ''dentist'')])
        meeting_world)) = jobs meeting_world
   \<and> calendar_events (snd (cancel_calendar_event demo_env (VDict [(''title'', VStr ''dentist'')])
        meeting_world)) =
       [meeting_event,
        local_event\<lparr>e_status := ''cancelled'', e_updated_at := 100 * one_day + 7 * one_hour\<rparr>]"
proof -
  have l1: "\<not> ilike_contains ''dentist'' ''Sedinta proiect''" by code_simp
  have l2: "ilike_contains ''dentist'' ''Dentist''" by code_simp
  have f: "find_event demo_env [(''title'', VStr ''dentist'')] (calendar_events meeting_world)
     = Inr (Some local_event)"
    using l1 l2
    by (simp add: find_event_def dict_get_def meeting_world_def meeting_event_def local_event_def)
  have g: "e_google_event_id local_event = None \<or> e_google_event_id local_event = Some []"
    by (simp add: local_event_def)
  have u: "utcnow demo_env = 100 * one_day + 7 * one_hour" by (simp add: demo_env_def)
  have t: "trace meeting_world = []" by (simp add: meeting_world_def)
  have m: "map (\<lambda>ev. if e_id ev = e_id local_event
                 then ev\<lparr>e_status := ''cancelled'', e_updated_at := utcnow demo_env\<rparr>
                 else ev) (calendar_events meeting_world)
      = [meeting_event,
         local_event\<lparr>e_status := ''cancelled'', e_updated_at := 100 * one_day + 7 * one_hour\<rparr>]"
    by (simp add: meeting_world_def meeting_event_def local_event_def u)
  show ?thesis
    using cancel_event_without_external_id [OF f g] f g m t
    by (simp add: local_event_def)
qed










subsection \<open>Validation failures\<close>







subsection \<open>The dispatcher's results\<close>

lemma success_of_dict: "success_of (VDict ((''success'', VBool b) # rest)) = Some b"
  by (simp add: success_of_def)

lemma add_task_result: "\<exists>b. success_of (fst (add_task env data w)) = Some b"
  by (auto simp: add_task_def success_of_dict success_of_failure Let_def
      split: pyval.splits sum.splits)

lemma list_tasks_result: "\<exists>b. success_of (fst (list_tasks env data w)) = Some b"
  by (auto simp: list_tasks_def success_of_dict success_of_failure
      split: pyval.splits sum.splits)

lemma complete_task_result: "\<exists>b. success_of (fst (complete_task env data w)) = Some b"
  by (auto simp: complete_task_def success_of_dict success_of_failure
      split: pyval.splits sum.splits option.splits)

lemma delete_task_result: "\<exists>b. success_of (fst (delete_task env data w)) = Some b"
  by (auto simp: delete_task_def success_of_dict success_of_failure
      split: pyval.splits sum.splits option.splits)

lemma add_shopping_item_result: "\<exists>b. success_of (fst (add_shopping_item env data w)) = Some b"
  by (auto simp: add_shopping_item_def success_of_dict success_of_failure Let_def
      split: pyval.splits sum.splits)

lemma list_shopping_result: "\<exists>b. success_of (fst (list_shopping env data w)) = Some b"
  by (auto simp: list_shopping_def success_of_dict success_of_failure
      split: pyval.splits sum.splits)

lemma remove_shopping_item_result:
  "\<exists>b. success_of (fst (remove_shopping_item env data w)) = Some b"
  by (auto simp: remove_shopping_item_def success_of_dict success_of_failure
      split: pyval.splits sum.splits option.splits)

lemma svc_send_email_result:
  "\<exists>b. success_of (fst (svc_send_email env rcpt subj body w)) = Some b"
  by (auto simp: svc_send_email_def success_of_dict success_of_failure
      split: pyval.splits smtp_outcome.splits)

lemma send_email_result: "\<exists>b. success_of (fst (send_email env data w)) = Some b"
proof (cases data)
  case (VDict d)
  show ?thesis
  proof (cases "truthy (dict_get d ''to'')")
    case False
    then show ?thesis using VDict by (auto simp: send_email_def success_of_failure)
  next
    case True
    show ?thesis
    proof (cases "validate_email env (dict_get d ''to'')")
      case (Inl e)
      then show ?thesis using VDict True by (auto simp: send_email_def success_of_failure)
    next
      case (Inr ok)
      show ?thesis
      proof (cases ok)
        case False
        then show ?thesis using VDict True Inr by (auto simp: send_email_def success_of_failure)
      next
        case ok: True
        then show ?thesis
          using VDict True Inr svc_send_email_result
          by (auto simp: send_email_def Let_def split: prod.splits) (metis fst_conv)
      qed
    qed
  qed
qed (auto simp: send_email_def success_of_failure)

lemma read_emails_result: "\<exists>b. success_of (fst (read_emails env data w)) = Some b"
  by (auto simp: read_emails_def success_of_dict success_of_failure
      split: pyval.splits sum.splits prod.splits list.splits)

lemma read_last_email_result: "\<exists>b. success_of (fst (read_last_email env data w)) = Some b"
  by (auto simp: read_last_email_def success_of_dict success_of_failure
      split: sum.splits prod.splits list.splits)

lemma search_emails_result: "\<exists>b. success_of (fst (search_emails env data w)) = Some b"
  by (auto simp: search_emails_def success_of_dict success_of_failure
      split: pyval.splits sum.splits prod.splits list.splits)

lemma summarize_email_result: "\<exists>b. success_of (fst (summarize_email env data w)) = Some b"
  by (auto simp: summarize_email_def success_of_dict success_of_failure
      split: pyval.splits sum.splits prod.splits)

lemma search_internet_result: "\<exists>b. success_of (fst (search_internet env data w)) = Some b"
  by (auto simp: search_internet_def success_of_dict success_of_failure
      split: pyval.splits prod.splits)

lemma cal_create_event_with_meet_result:
  "\<exists>b. success_of (fst (cal_create_event_with_meet env title st en descr atts notify mins w))
          = Some b"
  by (auto simp: cal_create_event_with_meet_def success_of_dict success_of_failure Let_def
      split: insert_outcome.splits)

lemma ms_schedule_meeting_result:
  "\<exists>b. success_of (fst (ms_schedule_meeting env title st en att name descr rh w)) = Some b"
proof (cases "reminder_minutes_of env rh")
  case (Inl e)
  then show ?thesis by (auto simp: ms_schedule_meeting_def Let_def success_of_failure)
next
  case (Inr mins)
  obtain result w1 where c: "cal_create_event_with_meet env title st
      (Some (case en of None \<Rightarrow> st + one_hour | Some e \<Rightarrow> e)) descr
      ((if truthy att then [att] else []) @ (if smtp_user env \<noteq> [] then [VStr (smtp_user env)] else []))
      True mins w = (result, w1)"
    by (meson surj_pair)
  obtain b where b: "success_of result = Some b"
    using cal_create_event_with_meet_result
      [of env title st "Some (case en of None \<Rightarrow> st + one_hour | Some e \<Rightarrow> e)" descr
          "(if truthy att then [att] else []) @ (if smtp_user env \<noteq> [] then [VStr (smtp_user env)] else [])"
          True mins w] c
    by auto
  show ?thesis
    using Inr c b
    by (auto simp: ms_schedule_meeting_def Let_def success_of_dict success_of_failure
        split: sum.splits)
qed

lemma schedule_meeting_result: "\<exists>b. success_of (fst (schedule_meeting env data w)) = Some b"
proof (cases data)
  case (VDict d)
  show ?thesis
  proof (cases "meeting_start env d")
    case None
    then show ?thesis using VDict by (auto simp: schedule_meeting_def success_of_failure)
  next
    case (Some st)
    obtain result w1 where m: "ms_schedule_meeting env (dict_get_or d ''title'' (VStr ''Intalnire''))
                  st (case meeting_end env d st of Inr e \<Rightarrow> e | Inl x \<Rightarrow> None)
                  (dict_get d ''attendee_email'')
                  (dict_get_or d ''attendee_name'' (VStr []))
                  (dict_get_or d ''description'' (VStr []))
                  (dict_get_or d ''reminder_hours'' (VInt 1)) w = (result, w1)"
      by (meson surj_pair)
    obtain b where b: "success_of result = Some b"
      using ms_schedule_meeting_result m by (metis fst_conv)
    show ?thesis
      using VDict Some m b
      by (auto simp: schedule_meeting_def success_of_dict success_of_failure
          split: sum.splits bool.splits if_splits)
  qed
qed (auto simp: schedule_meeting_def success_of_failure)

lemma add_calendar_event_result:
  "\<exists>b. success_of (fst (add_calendar_event env data w)) = Some b"
proof (cases data)
  case (VDict d)
  show ?thesis
  proof (cases "event_start env d")
    case None
    then show ?thesis using VDict by (auto simp: add_calendar_event_def success_of_failure)
  next
    case (Some st)
    show ?thesis
    proof (cases "timedelta_minutes (dict_get_or d ''duration_minutes'' (VInt 60))")
      case (Inl e)
      then show ?thesis using VDict Some by (auto simp: add_calendar_event_def success_of_failure)
    next
      case (Inr m)
      obtain result w1 where c: "cal_create_event_with_meet env
          (dict_get_or d ''title'' (VStr ''Eveniment'')) st (Some (st + m))
          (dict_get_or d ''description'' (VStr [])) [] False 60 w = (result, w1)"
        by (meson surj_pair)
      obtain b where b: "success_of result = Some b"
        using cal_create_event_with_meet_result c by (metis fst_conv)
      show ?thesis
        using VDict Some Inr c b
        by (auto simp: add_calendar_event_def success_of_dict success_of_failure
            split: sum.splits)
    qed
  qed
qed (auto simp: add_calendar_event_def success_of_failure)

lemma list_calendar_events_result:
  "\<exists>b. success_of (fst (list_calendar_events env data w)) = Some b"
  by (auto simp: list_calendar_events_def success_of_dict Let_def
      split: sum.splits prod.splits list.splits)

lemma cancel_calendar_event_result:
  "\<exists>b. success_of (fst (cancel_calendar_event env data w)) = Some b"
  by (auto simp: cancel_calendar_event_def success_of_dict success_of_failure Let_def
      split: pyval.splits sum.splits option.splits)

lemma handler_result:
  "(intent, handler) \<in> set action_handlers \<Longrightarrow>
   \<exists>b. success_of (fst (handler env data w)) = Some b"
  unfolding action_handlers_def
  using add_task_result list_tasks_result complete_task_result delete_task_result
    add_shopping_item_result list_shopping_result remove_shopping_item_result
    send_email_result read_emails_result read_last_email_result search_emails_result
    summarize_email_result search_internet_result schedule_meeting_result
    add_calendar_event_result list_calendar_events_result cancel_calendar_event_result
  by (elim set_ConsD [elim_format]) auto

text \<open>
  C1. Whatever the intent and the payload, \<^verbatim>\<open>execute\<close> returns a result whose
  \<^verbatim>\<open>success\<close> entry is a boolean; exceptions are branches of the handlers that end
  in such a result, so none reaches the caller. The registry has 17 intents, each
  once. For an intent outside of it the result is
  \<^verbatim>\<open>{"success": False, "error": "Unknown intent: <intent>"}\<close> and the world, trace
  included, is the one passed in: no handler has run.
\<close>

theorem execute_returns_structured_result:
  "(\<exists>b. success_of (fst (execute env intent action_data w)) = Some b)
   \<and> length action_handlers = 17
   \<and> distinct (map fst action_handlers)
   \<and> (intent \<notin> set (map fst action_handlers) \<longrightarrow>
        execute env intent action_data w =
          (VDict [(''success'', VBool False),
                  (''error'', VStr (''Unknown intent: '' @ intent))], w))"
proof (intro conjI impI)
  show "\<exists>b. success_of (fst (execute env intent action_data w)) = Some b"
  proof (cases "map_of action_handlers intent")
    case None
    then show ?thesis by (auto simp: execute_def success_of_dict)
  next
    case (Some handler)
    then have "(intent, handler) \<in> set action_handlers" by (rule map_of_SomeD)
    then show ?thesis using Some handler_result by (simp add: execute_def)
  qed
  show "length action_handlers = 17" by (simp add: action_handlers_def)
  show "distinct (map fst action_handlers)" by (simp add: action_handlers_def)
next
  assume "intent \<notin> set (map fst action_handlers)"
  then have "map_of action_handlers intent = None" by (simp add: map_of_eq_None_iff)
  then show "execute env intent action_data w =
          (VDict [(''success'', VBool False),
                  (''error'', VStr (''Unknown intent: '' @ intent))], w)"
    by (simp add: execute_def)
qed

theorem execute_returns_structured_result_witness:
  "''order_pizza'' \<notin> set (map fst action_handlers)
   \<and> execute demo_env ''order_pizza'' (VDict [(''size'', VStr ''mare'')]) meeting_world =
       (VDict [(''success'', VBool False),
               (''error'', VStr ''Unknown intent: order_pizza'')], meeting_world)
   \<and> success_of (fst (execute demo_env ''add_task'' (VInt 7) empty_world)) = Some False
   \<and> success_of (fst (execute demo_env ''add_shopping_item'' three_items empty_world))
       = Some True"
proof -
  have n: "''order_pizza'' \<notin> set (map fst action_handlers)"
    by (simp add: action_handlers_def)
  have a: "success_of (fst (execute demo_env ''add_task'' (VInt 7) empty_world)) = Some False"
    by (simp add: execute_def action_handlers_def add_task_def success_of_failure)
  have s: "success_of (fst (execute demo_env ''add_shopping_item'' three_items empty_world))
       = Some True"
    by (simp add: execute_def action_handlers_def three_items_def add_shopping_item_def
        new_item_def store_text_def store_text_null_def store_num_def dict_get_def
        dict_get_or_def Let_def success_of_dict)
  show ?thesis
    using execute_returns_structured_result
      [of demo_env "''order_pizza''" "VDict [(''size'', VStr ''mare'')]" meeting_world] n a s
    by simp
qed

subsection \<open>Scheduling a meeting\<close>





















end
